theory Spec2Isabelle
  imports Main "HOL-Library.Sublist"
begin

section \<open>JavaScript strings and values used by the source\<close>

text \<open>
  Strings are byte lists. \<open>toLowerCase\<close> is modelled on the ASCII letters; every other
  byte is left as it is. \<open>str_includes\<close> is \<open>String.prototype.includes\<close>: the keyword occurs
  as a contiguous run of the string. \<open>truthy\<close> is the truth value JavaScript gives an
  optional string: \<open>undefined\<close>, \<open>null\<close> and the empty string are false.
\<close>

definition lower_char :: "char \<Rightarrow> char" where
  "lower_char c =
     (case map_of (zip ''ABCDEFGHIJKLMNOPQRSTUVWXYZ'' ''abcdefghijklmnopqrstuvwxyz'') c of
        None \<Rightarrow> c
      | Some d \<Rightarrow> d)"

definition toLowerCase :: "string \<Rightarrow> string" where
  "toLowerCase s = map lower_char s"

fun str_includes :: "string \<Rightarrow> string \<Rightarrow> bool" where
  "str_includes [] keyword = (keyword = [])"
| "str_includes (c # s) keyword = (prefix keyword (c # s) \<or> str_includes s keyword)"

definition truthy :: "string option \<Rightarrow> bool" where
  "truthy v = (case v of None \<Rightarrow> False | Some s \<Rightarrow> s \<noteq> [])"

text \<open>\<open>v || d\<close> on an optional string.\<close>

definition or_else :: "string option \<Rightarrow> string \<Rightarrow> string" where
  "or_else v d = (case v of None \<Rightarrow> d | Some s \<Rightarrow> if s = [] then d else s)"

section \<open>Routing rules (src/integrations/zammad.js)\<close>

text \<open>
  A rule of the domain configuration: \<open>match.toContains\<close> and \<open>match.subjectContains\<close>
  are optional keyword arrays (an array, even an empty one, is truthy, so a declared
  field is \<open>Some\<close>), \<open>action\<close> carries the optional template, priority and tags.
\<close>

record rule_match =
  toContains :: "string list option"
  subjectContains :: "string list option"

record rule_action =
  template :: "string option"
  action_priority :: "string option"
  action_tags :: "string list option"

record rule =
  rule_name :: string
  match :: rule_match
  action :: rule_action

text \<open>
  The email object handed to the integration. \<open>from\<close> is either a plain string or an
  object with optional \<open>address\<close> and \<open>name\<close>; the other fields are optional strings.
\<close>

datatype js_from = FromString string | FromObject "string option" "string option"

record email =
  email_from :: js_from
  email_to :: "string option"
  email_subject :: "string option"
  email_body :: "string option"
  email_text :: "string option"
  email_html :: "string option"

text \<open>
  The body of the loop of \<open>findMatchingRule\<close> (lines 129 to 143): the value of
  \<open>matches\<close> when the two \<open>if\<close> statements have run.
\<close>

definition rule_matches :: "email \<Rightarrow> rule \<Rightarrow> bool" where
  "rule_matches email rule =
     (let matches = True;
          matches =
            (case toContains (match rule) of
               None \<Rightarrow> matches
             | Some keywords \<Rightarrow>
                 (let toField = toLowerCase (or_else (email_to email) '''')
                  in matches \<and> list_ex (\<lambda>keyword. str_includes toField (toLowerCase keyword)) keywords));
          matches =
            (case subjectContains (match rule) of
               None \<Rightarrow> matches
             | Some keywords \<Rightarrow>
                 (let subject = toLowerCase (or_else (email_subject email) '''')
                  in matches \<and> list_ex (\<lambda>keyword. str_includes subject (toLowerCase keyword)) keywords))
      in matches)"

text \<open>
  \<open>for (const rule of rules)\<close>: the array iterator reads \<open>rules[i]\<close> from the live array
  at each step and stops when \<open>i\<close> reaches its length. The array is threaded through the
  loop and returned with the result, so that what the call leaves in it can be stated.
\<close>

function findMatchingRule_loop :: "email \<Rightarrow> rule list \<Rightarrow> nat \<Rightarrow> rule option \<times> rule list" where
  "findMatchingRule_loop email rules i =
     (if i < length rules then
        (if rule_matches email (rules ! i) then (Some (rules ! i), rules)
         else findMatchingRule_loop email rules (Suc i))
      else (None, rules))"
  by pat_completeness auto
termination
  by (relation "measure (\<lambda>(email, rules, i). length rules - i)") auto

declare findMatchingRule_loop.simps [simp del]

definition findMatchingRule :: "email \<Rightarrow> rule list \<Rightarrow> rule option" where
  "findMatchingRule email rules = fst (findMatchingRule_loop email rules 0)"

subsection \<open>The rule matcher as the specification words it\<close>



section \<open>The ticketing system and the forwarding sink, as the code sees them\<close>

text \<open>
  The type variable \<open>'e\<close> is the type of the value the code uses as the customer's email:
  a string in the worker, the value of \<open>email.from.address || email.from\<close> in the
  integration.
\<close>

datatype error =
    AxiosError string "(nat \<times> string) option"
  | FetchError string
  | TypeError string
  | Error string

record customer =
  cust_id :: nat
  cust_email :: string
  cust_firstname :: string
  cust_lastname :: string

record ticket =
  ticket_id :: nat

record 'e customer_data =
  cd_email :: 'e
  cd_firstname :: string
  cd_lastname :: string

record 'e article =
  art_subject :: string
  art_body :: string
  art_type :: string
  art_sender :: string
  art_from :: 'e
  art_to :: "string option"
  art_content_type :: string
  art_internal :: "bool option"

record 'e ticket_data =
  title :: string
  group :: string
  customer_id :: nat
  article :: "'e article"
  priority :: string
  state :: string
  tags :: "string option"

text \<open>
  What a request comes back with: no response at all (a network error or a timeout, with
  its message), a response whose status is outside 200..299 (status and body text), or a
  2xx response with its parsed JSON body (\<open>None\<close> when the body is \<open>null\<close>).
\<close>

datatype 'a response =
    NoResponse string
  | Rejected nat string
  | Accepted "'a option"

text \<open>
  Every request the code issues is recorded with what came back:
  \<open>GET /users/search\<close>, \<open>POST /users\<close> (the customer data and the roles added to it),
  \<open>POST /tickets\<close>, and \<open>message.forward\<close> (\<open>None\<close> when it resolves, the error when it
  rejects).
\<close>

datatype 'e event =
    Searched 'e "customer list response"
  | UserPosted "'e customer_data" "string list" "customer response"
  | TicketPosted "'e ticket_data" "ticket response"
  | Forwarded string "error option"

text \<open>
  The outside world is a parameter: its answer to a request may depend on everything
  that was requested before.
\<close>

record 'e upstream =
  users_search :: "'e event list \<Rightarrow> 'e \<Rightarrow> customer list response"
  users_post :: "'e event list \<Rightarrow> 'e customer_data \<Rightarrow> string list \<Rightarrow> customer response"
  tickets_post :: "'e event list \<Rightarrow> 'e ticket_data \<Rightarrow> ticket response"
  forward :: "'e event list \<Rightarrow> string \<Rightarrow> error option"

definition get_users_search ::
  "'e upstream \<Rightarrow> 'e \<Rightarrow> 'e event list \<Rightarrow> customer list response \<times> 'e event list" where
  "get_users_search up query log =
     (let r = users_search up log query in (r, log @ [Searched query r]))"

definition post_users ::
  "'e upstream \<Rightarrow> 'e customer_data \<Rightarrow> string list \<Rightarrow> 'e event list \<Rightarrow>
     customer response \<times> 'e event list" where
  "post_users up customerData roles log =
     (let r = users_post up log customerData roles in (r, log @ [UserPosted customerData roles r]))"

definition post_tickets ::
  "'e upstream \<Rightarrow> 'e ticket_data \<Rightarrow> 'e event list \<Rightarrow> ticket response \<times> 'e event list" where
  "post_tickets up ticketData log =
     (let r = tickets_post up log ticketData in (r, log @ [TicketPosted ticketData r]))"

definition message_forward ::
  "'e upstream \<Rightarrow> string \<Rightarrow> 'e event list \<Rightarrow> error option \<times> 'e event list" where
  "message_forward up dest log =
     (let r = forward up log dest in (r, log @ [Forwarded dest r]))"

text \<open>
  The axios client rejects when there is no response and when the status is outside 2xx;
  the error carries the message and, when there was a response, its status and body.
\<close>

definition axios_result :: "'a response \<Rightarrow> error + 'a option" where
  "axios_result r =
     (case r of
        NoResponse message \<Rightarrow> Inl (AxiosError message None)
      | Rejected status body \<Rightarrow>
          Inl (AxiosError ''Request failed with status code'' (Some (status, body)))
      | Accepted data \<Rightarrow> Inr data)"

text \<open>An accepted \<open>POST /tickets\<close> is a ticket created in the ticketing system.\<close>

fun ticket_created :: "'e event \<Rightarrow> bool" where
  "ticket_created (TicketPosted ticketData (Accepted data)) = True"
| "ticket_created event = False"

definition tickets_created :: "'e event list \<Rightarrow> nat" where
  "tickets_created log = length (filter ticket_created log)"

fun is_ticket_post :: "'e event \<Rightarrow> bool" where
  "is_ticket_post (TicketPosted ticketData r) = True"
| "is_ticket_post event = False"

fun is_search :: "'e event \<Rightarrow> bool" where
  "is_search (Searched query r) = True"
| "is_search event = False"

fun is_user_post :: "'e event \<Rightarrow> bool" where
  "is_user_post (UserPosted customerData roles r) = True"
| "is_user_post event = False"

fun is_forward :: "'e event \<Rightarrow> bool" where
  "is_forward (Forwarded dest r) = True"
| "is_forward event = False"

text \<open>
  A ticketing system that accepts whatever it is sent: every search is answered, every
  customer creation returns a customer, every ticket submission is accepted.
\<close>

definition accepts_every_request :: "'e upstream \<Rightarrow> bool" where
  "accepts_every_request up =
     ((\<forall>log query. \<exists>found. users_search up log query = Accepted found) \<and>
      (\<forall>log customerData roles. \<exists>customer.
         users_post up log customerData roles = Accepted (Some customer)) \<and>
      (\<forall>log ticketData. \<exists>data. tickets_post up log ticketData = Accepted data))"

section \<open>String helpers of the ticket code\<close>

text \<open>\<open>s.split(sep)\<close> for a one-character separator, and \<open>parts.join(sep)\<close>.\<close>

fun split_on :: "char \<Rightarrow> string \<Rightarrow> string list" where
  "split_on sep [] = [[]]"
| "split_on sep (c # s) =
     (if c = sep then [] # split_on sep s
      else (case split_on sep s of [] \<Rightarrow> [[c]] | w # ws \<Rightarrow> (c # w) # ws))"

fun join :: "string \<Rightarrow> string list \<Rightarrow> string" where
  "join sep [] = []"
| "join sep [w] = w"
| "join sep (w # ws) = w @ sep @ join sep ws"

section \<open>The integration class (src/integrations/zammad.js)\<close>

record config =
  ZAMMAD_URL :: "string option"
  ZAMMAD_API_TOKEN :: "string option"
  ZAMMAD_ENABLED :: "string option"
  FORWARD_TO :: "string option"

record integration =
  baseUrl :: string
  apiToken :: "string option"
  enabled :: bool

text \<open>The constructor, lines 9 to 27. The axios client it builds is the \<open>upstream\<close> parameter.\<close>

definition ZammadIntegration :: "config \<Rightarrow> integration" where
  "ZammadIntegration config =
     (let this = \<lparr> baseUrl = or_else (ZAMMAD_URL config) ''https://help.vln.gg'',
                   apiToken = ZAMMAD_API_TOKEN config,
                   enabled = (ZAMMAD_ENABLED config \<noteq> Some ''false'') \<rparr>
      in if \<not> truthy (apiToken this) \<and> enabled this then this\<lparr>enabled := False\<rparr> else this)"

record zammad_config =
  zc_group :: "string option"
  zc_priority :: "string option"

record domain_config =
  dc_zammad :: "zammad_config option"
  dc_rules :: "rule list option"

text \<open>\<open>findOrCreateCustomer\<close>, lines 99 to 122. The \<open>catch\<close> logs and rethrows.\<close>

definition findOrCreateCustomer ::
  "'e upstream \<Rightarrow> 'e customer_data \<Rightarrow> 'e event list \<Rightarrow>
     (error + customer option) \<times> 'e event list" where
  "findOrCreateCustomer up customerData log =
     (let (searchResponse, log) = get_users_search up (cd_email customerData) log in
      case axios_result searchResponse of
        Inl error \<Rightarrow> (Inl error, log)
      | Inr (Some (first # others)) \<Rightarrow> (Inr (Some first), log)
      | Inr data \<Rightarrow>
          (let (createResponse, log) = post_users up customerData [''Customer''] log in
           case axios_result createResponse of
             Inl error \<Rightarrow> (Inl error, log)
           | Inr created \<Rightarrow> (Inr created, log)))"

text \<open>
  Lines 45 to 53 of \<open>createTicket\<close>: the customer's email, name, first and last name.
  \<open>customerEmail.split\<close> is a TypeError when \<open>customerEmail\<close> is the \<open>from\<close> object itself.
\<close>

definition customerEmail_of :: "email \<Rightarrow> js_from" where
  "customerEmail_of email =
     (case email_from email of
        FromString s \<Rightarrow> FromString s
      | FromObject address name \<Rightarrow>
          (case address of
             None \<Rightarrow> email_from email
           | Some a \<Rightarrow> if a = [] then email_from email else FromString a))"

definition customerName_of :: "email \<Rightarrow> error + string" where
  "customerName_of email =
     (let name = (case email_from email of FromString s \<Rightarrow> None | FromObject address name \<Rightarrow> name)
      in if truthy name then Inr (or_else name [])
         else (case customerEmail_of email of
                 FromString s \<Rightarrow> Inr (hd (split_on CHR ''@'' s))
               | FromObject address name \<Rightarrow> Inl (TypeError ''customerEmail.split is not a function'')))"

definition firstname_of :: "string \<Rightarrow> string" where
  "firstname_of customerName =
     (let first = hd (split_on CHR '' '' customerName) in if first = [] then customerName else first)"

definition lastname_of :: "string \<Rightarrow> string" where
  "lastname_of customerName = join '' '' (tl (split_on CHR '' '' customerName))"

text \<open>Lines 56 to 79: the ticket payload.\<close>

definition ticketData_of ::
  "email \<Rightarrow> domain_config \<Rightarrow> js_from \<Rightarrow> customer \<Rightarrow> js_from ticket_data" where
  "ticketData_of email domainConfig customerEmail customer =
     (let zammadConfig =
            (case dc_zammad domainConfig of
               None \<Rightarrow> \<lparr> zc_group = None, zc_priority = None \<rparr>
             | Some z \<Rightarrow> z);
          ticketData =
            \<lparr> title = or_else (email_subject email) ''(No Subject)'',
              group = or_else (zc_group zammadConfig) ''Users'',
              customer_id = cust_id customer,
              article =
                \<lparr> art_subject = or_else (email_subject email) ''(No Subject)'',
                  art_body = or_else (email_body email) (or_else (email_text email) []),
                  art_type = ''email'',
                  art_sender = ''Customer'',
                  art_from = customerEmail,
                  art_to = email_to email,
                  art_content_type = (if truthy (email_html email) then ''text/html'' else ''text/plain''),
                  art_internal = None \<rparr>,
              priority = or_else (zc_priority zammadConfig) ''2 normal'',
              state = ''new'',
              tags = None \<rparr>
      in case dc_rules domainConfig of
           None \<Rightarrow> ticketData
         | Some rs \<Rightarrow>
             if length rs > 0 then
               (case findMatchingRule email rs of
                  None \<Rightarrow> ticketData
                | Some matchingRule \<Rightarrow>
                    (case action_tags (action matchingRule) of
                       None \<Rightarrow> ticketData
                     | Some ts \<Rightarrow> ticketData\<lparr>tags := Some (join '','' ts)\<rparr>))
             else ticketData)"

text \<open>
  \<open>createTicket\<close>, lines 35 to 94. The result is \<open>Inr None\<close> for \<open>null\<close>, \<open>Inr (Some t)\<close> for
  the created ticket \<open>response.data\<close>, and \<open>Inl\<close> the error the \<open>catch\<close> rethrows. Reading
  \<open>customer.id\<close> of a \<open>null\<close> customer and \<open>response.data.id\<close> of a \<open>null\<close> body are TypeErrors.
\<close>

definition createTicket ::
  "integration \<Rightarrow> js_from upstream \<Rightarrow> email \<Rightarrow> domain_config \<Rightarrow> js_from event list \<Rightarrow>
     (error + ticket option) \<times> js_from event list" where
  "createTicket this up email domainConfig log =
     (if \<not> enabled this then (Inr None, log)
      else
        (let customerEmail = customerEmail_of email in
         case customerName_of email of
           Inl error \<Rightarrow> (Inl error, log)
         | Inr customerName \<Rightarrow>
             (let (found, log) =
                    findOrCreateCustomer up
                      \<lparr> cd_email = customerEmail,
                        cd_firstname = firstname_of customerName,
                        cd_lastname = lastname_of customerName \<rparr> log
              in case found of
                   Inl error \<Rightarrow> (Inl error, log)
                 | Inr None \<Rightarrow> (Inl (TypeError ''Cannot read properties of null (reading id)''), log)
                 | Inr (Some customer) \<Rightarrow>
                     (let ticketData = ticketData_of email domainConfig customerEmail customer;
                          (response, log) = post_tickets up ticketData log
                      in case axios_result response of
                           Inl error \<Rightarrow> (Inl error, log)
                         | Inr None \<Rightarrow>
                             (Inl (TypeError ''Cannot read properties of null (reading id)''), log)
                         | Inr (Some data) \<Rightarrow> (Inr (Some data), log)))))"

section \<open>The worker (src/cloudflare-worker/email-to-zammad.js)\<close>

text \<open>
  The message the mail transport delivers. Reading the raw stream and calling \<open>text()\<close>
  and \<open>html()\<close> may each throw. Header names are compared without regard to case.
\<close>

record message =
  msg_from :: string
  msg_to :: string
  msg_headers :: "(string \<times> string) list"
  msg_raw :: "error + string"
  msg_text :: "error + string option"
  msg_html :: "error + string option"

record parsed_email =
  p_from :: string
  p_to :: string
  p_subject :: "string option"
  p_text :: "string option"
  p_html :: "string option"
  p_headers :: "(string \<times> string) list"
  p_rawEmail :: string

definition headers_get :: "(string \<times> string) list \<Rightarrow> string \<Rightarrow> string option" where
  "headers_get headers name =
     map_of (map (\<lambda>(k, v). (toLowerCase k, v)) headers) (toLowerCase name)"

text \<open>\<open>parseEmail\<close>, lines 44 to 56.\<close>

definition parseEmail :: "message \<Rightarrow> error + parsed_email" where
  "parseEmail message =
     (case msg_raw message of
        Inl error \<Rightarrow> Inl error
      | Inr rawEmail \<Rightarrow>
          (case msg_text message of
             Inl error \<Rightarrow> Inl error
           | Inr text_value \<Rightarrow>
               (case msg_html message of
                  Inl error \<Rightarrow> Inl error
                | Inr html_value \<Rightarrow>
                    Inr \<lparr> p_from = msg_from message,
                          p_to = msg_to message,
                          p_subject = headers_get (msg_headers message) ''subject'',
                          p_text = text_value,
                          p_html = (if truthy html_value then html_value else None),
                          p_headers = msg_headers message,
                          p_rawEmail = rawEmail \<rparr>)))"

text \<open>
  \<open>extractName\<close>, lines 173 to 176. The regular expression
  \<^verbatim>\<open>/^"?([^"<]+)"?\s*</\<close> reads an optional quote, the longest non-empty run of
  characters other than a quote and \<open><\<close>, an optional quote, white space, and \<open><\<close>;
  no shorter run can match, since the run ends at a quote, at \<open><\<close> or at the end.
\<close>

definition is_space :: "char \<Rightarrow> bool" where
  "is_space c = (c \<in> set [CHR '' '', CHR 0x09, CHR 0x0A, CHR 0x0B, CHR 0x0C, CHR 0x0D])"

definition trim :: "string \<Rightarrow> string" where
  "trim s = rev (dropWhile is_space (rev (dropWhile is_space s)))"

definition skip_quote :: "string \<Rightarrow> string" where
  "skip_quote s = (case s of [] \<Rightarrow> [] | c # rest \<Rightarrow> if c = CHR 0x22 then rest else s)"

definition extractName :: "string \<Rightarrow> string option" where
  "extractName emailAddress =
     (let s = skip_quote emailAddress;
          run = takeWhile (\<lambda>c. c \<noteq> CHR 0x22 \<and> c \<noteq> CHR ''<'') s;
          rest = dropWhile is_space (skip_quote (dropWhile (\<lambda>c. c \<noteq> CHR 0x22 \<and> c \<noteq> CHR ''<'') s))
      in if run \<noteq> [] \<and> (case rest of [] \<Rightarrow> False | c # remaining \<Rightarrow> c = CHR ''<'')
         then Some (trim run) else None)"

text \<open>
  \<open>findOrCreateCustomer\<close> of the worker, lines 127 to 168. \<open>fetch\<close> rejects only when
  there is no response; a search response that is not ok falls through to the creation.
\<close>

definition worker_findOrCreateCustomer ::
  "'e upstream \<Rightarrow> string \<Rightarrow> string \<Rightarrow> 'e customer_data \<Rightarrow> 'e event list \<Rightarrow>
     (error + customer option) \<times> 'e event list" where
  "worker_findOrCreateCustomer up base_url api_token customerData log =
     (let (searchResponse, log) = get_users_search up (cd_email customerData) log in
      case searchResponse of
        NoResponse message \<Rightarrow> (Inl (FetchError message), log)
      | Accepted (Some (first # others)) \<Rightarrow> (Inr (Some first), log)
      | other \<Rightarrow>
          (let (createResponse, log) = post_users up customerData [''Customer''] log in
           case createResponse of
             NoResponse message \<Rightarrow> (Inl (FetchError message), log)
           | Rejected status body \<Rightarrow> (Inl (Error ''Failed to create customer''), log)
           | Accepted created \<Rightarrow> (Inr created, log)))"

text \<open>Lines 83 to 99: the ticket payload of the worker.\<close>

definition worker_ticketData :: "parsed_email \<Rightarrow> customer \<Rightarrow> string ticket_data" where
  "worker_ticketData email customer =
     \<lparr> title = or_else (p_subject email) ''(No Subject)'',
       group = ''Users'',
       customer_id = cust_id customer,
       article =
         \<lparr> art_subject = or_else (p_subject email) ''(No Subject)'',
           art_body = or_else (p_text email) (or_else (p_html email) []),
           art_type = ''email'',
           art_sender = ''Customer'',
           art_from = p_from email,
           art_to = Some (p_to email),
           art_content_type = (if truthy (p_html email) then ''text/html'' else ''text/plain''),
           art_internal = Some False \<rparr>,
       priority = ''2 normal'',
       state = ''new'',
       tags = None \<rparr>"

text \<open>
  \<open>createZammadTicket\<close>, lines 61 to 122: \<open>None\<close> is \<open>null\<close>. Every failure inside the
  \<open>try\<close> is logged and becomes \<open>null\<close>.
\<close>

definition createZammadTicket ::
  "string upstream \<Rightarrow> parsed_email \<Rightarrow> config \<Rightarrow> string event list \<Rightarrow>
     ticket option \<times> string event list" where
  "createZammadTicket up email env log =
     (let zammad_url = or_else (ZAMMAD_URL env) ''https://help.vln.gg'';
          zammad_api_token = ZAMMAD_API_TOKEN env
      in if \<not> truthy zammad_api_token then (None, log)
         else
           (let customerEmail = p_from email;
                customerName = or_else (extractName (p_from email))
                                 (hd (split_on CHR ''@'' customerEmail));
                (found, log) =
                  worker_findOrCreateCustomer up zammad_url (or_else zammad_api_token [])
                    \<lparr> cd_email = customerEmail,
                      cd_firstname = firstname_of customerName,
                      cd_lastname = lastname_of customerName \<rparr> log
            in case found of
                 Inl error \<Rightarrow> (None, log)
               | Inr None \<Rightarrow> (None, log)
               | Inr (Some customer) \<Rightarrow>
                   (let ticketData = worker_ticketData email customer;
                        (response, log) = post_tickets up ticketData log
                    in case response of
                         NoResponse message \<Rightarrow> (None, log)
                       | Rejected status body \<Rightarrow> (None, log)
                       | Accepted data \<Rightarrow> (data, log))))"

text \<open>
  The \<open>catch\<close> block of the entry point, lines 31 to 37: forward when a destination is
  configured; an error of this forward leaves the handler.
\<close>

definition email_catch ::
  "string upstream \<Rightarrow> config \<Rightarrow> string event list \<Rightarrow> (error + unit) \<times> string event list" where
  "email_catch up env log =
     (if truthy (FORWARD_TO env) then
        (let (failure, log) = message_forward up (or_else (FORWARD_TO env) []) log
         in case failure of None \<Rightarrow> (Inr (), log) | Some error \<Rightarrow> (Inl error, log))
      else (Inr (), log))"

text \<open>The entry point \<open>email(message, env, ctx)\<close>, lines 12 to 38.\<close>

definition email_handler ::
  "string upstream \<Rightarrow> message \<Rightarrow> config \<Rightarrow> string event list \<Rightarrow>
     (error + unit) \<times> string event list" where
  "email_handler up message env log =
     (case parseEmail message of
        Inl error \<Rightarrow> email_catch up env log
      | Inr email \<Rightarrow>
          (let (ticket, log) = createZammadTicket up email env log
           in if truthy (FORWARD_TO env) then
                (let (failure, log) = message_forward up (or_else (FORWARD_TO env) []) log
                 in case failure of
                      None \<Rightarrow> (Inr (), log)
                    | Some error \<Rightarrow> email_catch up env log)
              else (Inr (), log)))"


section \<open>Example inputs\<close>

text \<open>
  The rules and the message of the specification's example: a first rule on the recipient,
  a second on the subject, and a message that satisfies both.
\<close>

definition sales_rule :: rule where
  "sales_rule =
     \<lparr> rule_name = ''Sales'',
       match = \<lparr> toContains = Some [''sales''], subjectContains = None \<rparr>,
       action = \<lparr> template = Some ''sales'', action_priority = Some ''high'',
                  action_tags = Some [''sales'', ''lead''] \<rparr> \<rparr>"

definition quote_rule :: rule where
  "quote_rule =
     \<lparr> rule_name = ''Quotes'',
       match = \<lparr> toContains = None, subjectContains = Some [''quote''] \<rparr>,
       action = \<lparr> template = None, action_priority = None, action_tags = Some [''quote''] \<rparr> \<rparr>"

definition catch_all_rule :: rule where
  "catch_all_rule =
     \<lparr> rule_name = ''Everything'',
       match = \<lparr> toContains = None, subjectContains = None \<rparr>,
       action = \<lparr> template = None, action_priority = None, action_tags = None \<rparr> \<rparr>"

definition sales_email :: email where
  "sales_email =
     \<lparr> email_from = FromObject (Some ''a@b.com'') (Some ''Ann Bee''),
       email_to = Some ''Sales@x.com'',
       email_subject = Some ''Quote request'',
       email_body = None,
       email_text = Some ''hello'',
       email_html = Some ''<p>hello</p>'' \<rparr>"

definition sales_domain :: domain_config where
  "sales_domain = \<lparr> dc_zammad = None, dc_rules = Some [sales_rule, quote_rule] \<rparr>"

text \<open>Environments: a configured one, one without a token, one switched off.\<close>

definition live_config :: config where
  "live_config =
     \<lparr> ZAMMAD_URL = None, ZAMMAD_API_TOKEN = Some ''secret'', ZAMMAD_ENABLED = None,
       FORWARD_TO = Some ''me@home.example'' \<rparr>"

definition tokenless_config :: config where
  "tokenless_config = live_config\<lparr>ZAMMAD_API_TOKEN := None\<rparr>"

definition switched_off_config :: config where
  "switched_off_config = live_config\<lparr>ZAMMAD_ENABLED := Some ''false''\<rparr>"

text \<open>
  Ticketing systems: one that knows no customer and accepts every request, one that
  answers every ticket submission with 503, one whose search answers with a customer of
  another address, and one that accepts every request while its forwarding sink rejects.
\<close>

definition new_customer :: customer where
  "new_customer =
     \<lparr> cust_id = 7, cust_email = ''a@b.com'', cust_firstname = ''Ann'', cust_lastname = ''Bee'' \<rparr>"

definition other_customer :: customer where
  "other_customer =
     \<lparr> cust_id = 3, cust_email = ''anna@b.com'', cust_firstname = ''Anna'', cust_lastname = ''Cee'' \<rparr>"

definition accepting_upstream :: "'e upstream" where
  "accepting_upstream =
     \<lparr> users_search = (\<lambda>log query. Accepted (Some [])),
       users_post = (\<lambda>log customerData roles. Accepted (Some new_customer)),
       tickets_post = (\<lambda>log ticketData. Accepted (Some \<lparr> ticket_id = Suc (tickets_created log) \<rparr>)),
       forward = (\<lambda>log dest. None) \<rparr>"

definition unavailable_upstream :: "'e upstream" where
  "unavailable_upstream =
     \<lparr> users_search = (\<lambda>log query. Accepted (Some [])),
       users_post = (\<lambda>log customerData roles. Accepted (Some new_customer)),
       tickets_post = (\<lambda>log ticketData. Rejected 503 ''Service Unavailable''),
       forward = (\<lambda>log dest. None) \<rparr>"

definition fuzzy_upstream :: "'e upstream" where
  "fuzzy_upstream =
     \<lparr> users_search = (\<lambda>log query. Accepted (Some [other_customer])),
       users_post = (\<lambda>log customerData roles. Accepted (Some new_customer)),
       tickets_post = (\<lambda>log ticketData. Accepted (Some \<lparr> ticket_id = Suc (tickets_created log) \<rparr>)),
       forward = (\<lambda>log dest. None) \<rparr>"

definition unforwarding_upstream :: "'e upstream" where
  "unforwarding_upstream =
     \<lparr> users_search = (\<lambda>log query. Accepted (Some [])),
       users_post = (\<lambda>log customerData roles. Accepted (Some new_customer)),
       tickets_post = (\<lambda>log ticketData. Accepted (Some \<lparr> ticket_id = Suc (tickets_created log) \<rparr>)),
       forward = (\<lambda>log dest. Some (Error ''forwarding failed'')) \<rparr>"

text \<open>A delivery of the transport, and one whose \<open>text()\<close> throws.\<close>

definition delivery :: message where
  "delivery =
     \<lparr> msg_from = ''a@b.com'',
       msg_to = ''sales@x.com'',
       msg_headers = [(''Message-ID'', ''<1@b.com>''), (''Subject'', ''Quote request'')],
       msg_raw = Inr ''Subject: Quote request'',
       msg_text = Inr (Some ''hello''),
       msg_html = Inr (Some ''<p>hello</p>'') \<rparr>"

definition broken_delivery :: message where
  "broken_delivery = delivery\<lparr>msg_text := Inl (TypeError ''message.text is not a function'')\<rparr>"

text \<open>The data of a customer to look up.\<close>

definition ann_data :: "string customer_data" where
  "ann_data = \<lparr> cd_email = ''ann@b.com'', cd_firstname = ''Ann'', cd_lastname = ''Bee'' \<rparr>"

text \<open>
  The payloads the example email and the example delivery are submitted with, and the
  example delivery as \<open>parseEmail\<close> returns it.
\<close>

definition sales_payload :: "js_from ticket_data" where
  "sales_payload =
     \<lparr> title = ''Quote request'', group = ''Users'', customer_id = 7,
       article =
         \<lparr> art_subject = ''Quote request'', art_body = ''hello'', art_type = ''email'',
           art_sender = ''Customer'', art_from = FromString ''a@b.com'',
           art_to = Some ''Sales@x.com'', art_content_type = ''text/html'',
           art_internal = None \<rparr>,
       priority = ''2 normal'', state = ''new'', tags = Some ''sales,lead'' \<rparr>"

definition delivery_payload :: "string ticket_data" where
  "delivery_payload =
     \<lparr> title = ''Quote request'', group = ''Users'', customer_id = 7,
       article =
         \<lparr> art_subject = ''Quote request'', art_body = ''hello'', art_type = ''email'',
           art_sender = ''Customer'', art_from = ''a@b.com'',
           art_to = Some ''sales@x.com'', art_content_type = ''text/html'',
           art_internal = Some False \<rparr>,
       priority = ''2 normal'', state = ''new'', tags = None \<rparr>"

definition parsed_delivery :: parsed_email where
  "parsed_delivery =
     \<lparr> p_from = ''a@b.com'', p_to = ''sales@x.com'', p_subject = Some ''Quote request'',
       p_text = Some ''hello'', p_html = Some ''<p>hello</p>'',
       p_headers = [(''Message-ID'', ''<1@b.com>''), (''Subject'', ''Quote request'')],
       p_rawEmail = ''Subject: Quote request'' \<rparr>"

text \<open>
  An email with a text body only and no subject, and one with a subject no rule matches;
  the payload the first is submitted with.
\<close>

definition plain_email :: email where
  "plain_email =
     \<lparr> email_from = FromString ''a@b.com'',
       email_to = Some ''info@x.com'',
       email_subject = None,
       email_body = None,
       email_text = Some ''hello'',
       email_html = None \<rparr>"


definition plain_payload :: "js_from ticket_data" where
  "plain_payload =
     \<lparr> title = ''(No Subject)'', group = ''Users'', customer_id = 7,
       article =
         \<lparr> art_subject = ''(No Subject)'', art_body = ''hello'', art_type = ''email'',
           art_sender = ''Customer'', art_from = FromString ''a@b.com'',
           art_to = Some ''info@x.com'', art_content_type = ''text/plain'',
           art_internal = None \<rparr>,
       priority = ''2 normal'', state = ''new'', tags = None \<rparr>"

text \<open>
  Parsed deliveries with an HTML body only and with a text body only, and their payloads.
\<close>

definition html_delivery :: parsed_email where
  "html_delivery = parsed_delivery\<lparr>p_subject := None, p_text := None\<rparr>"

definition html_payload :: "string ticket_data" where
  "html_payload =
     \<lparr> title = ''(No Subject)'', group = ''Users'', customer_id = 7,
       article =
         \<lparr> art_subject = ''(No Subject)'', art_body = ''<p>hello</p>'', art_type = ''email'',
           art_sender = ''Customer'', art_from = ''a@b.com'',
           art_to = Some ''sales@x.com'', art_content_type = ''text/html'',
           art_internal = Some False \<rparr>,
       priority = ''2 normal'', state = ''new'', tags = None \<rparr>"

definition text_delivery :: parsed_email where
  "text_delivery = parsed_delivery\<lparr>p_html := None\<rparr>"

definition text_payload :: "string ticket_data" where
  "text_payload =
     \<lparr> title = ''Quote request'', group = ''Users'', customer_id = 7,
       article =
         \<lparr> art_subject = ''Quote request'', art_body = ''hello'', art_type = ''email'',
           art_sender = ''Customer'', art_from = ''a@b.com'',
           art_to = Some ''sales@x.com'', art_content_type = ''text/plain'',
           art_internal = Some False \<rparr>,
       priority = ''2 normal'', state = ''new'', tags = None \<rparr>"

text \<open>A ticketing system whose ticket endpoint does not answer within the timeout.\<close>

definition silent_upstream :: "'e upstream" where
  "silent_upstream =
     \<lparr> users_search = (\<lambda>log query. Accepted (Some [])),
       users_post = (\<lambda>log customerData roles. Accepted (Some new_customer)),
       tickets_post = (\<lambda>log ticketData. NoResponse ''timeout of 10000ms exceeded''),
       forward = (\<lambda>log dest. None) \<rparr>"

section \<open>Properties of the rule matcher\<close>



lemma findMatchingRule_loop_find:
  "fst (findMatchingRule_loop email rules i) = find (rule_matches email) (drop i rules)"
proof (induction email rules i rule: findMatchingRule_loop.induct)
  case (1 email rules i)
  show ?case
  proof (cases "i < length rules")
    case False
    then show ?thesis by (simp add: findMatchingRule_loop.simps [of email rules i])
  next
    case True
    then have d: "drop i rules = rules ! i # drop (Suc i) rules"
      by (simp add: Cons_nth_drop_Suc)
    show ?thesis
    proof (cases "rule_matches email (rules ! i)")
      case True
      with \<open>i < length rules\<close> d show ?thesis
        by (simp add: findMatchingRule_loop.simps [of email rules i])
    next
      case False
      with \<open>i < length rules\<close> d "1.IH" show ?thesis
        by (simp add: findMatchingRule_loop.simps [of email rules i])
    qed
  qed
qed

lemma findMatchingRule_loop_frame:
  "snd (findMatchingRule_loop email rules i) = rules"
proof (induction email rules i rule: findMatchingRule_loop.induct)
  case (1 email rules i)
  then show ?case
    by (simp add: findMatchingRule_loop.simps [of email rules i])
qed

lemma findMatchingRule_find:
  "findMatchingRule email rules = find (rule_matches email) rules"
  by (simp add: findMatchingRule_def findMatchingRule_loop_find)

lemma findMatchingRule_Nil [simp]: "findMatchingRule email [] = None"
  by (simp add: findMatchingRule_find)

lemma findMatchingRule_Cons [simp]:
  "findMatchingRule email (rule # rules) =
     (if rule_matches email rule then Some rule else findMatchingRule email rules)"
  by (simp add: findMatchingRule_find)




text \<open>
  C8. A call of \<open>findMatchingRule\<close> leaves the rule array as it found it: the array the
  loop hands back is the array it was given.
\<close>

theorem findMatchingRule_frame:
  "findMatchingRule_loop email rules 0 = (findMatchingRule email rules, rules)"
  by (simp add: findMatchingRule_def prod_eq_iff findMatchingRule_loop_frame)

text \<open>
  C9. A rule that declares neither \<open>toContains\<close> nor \<open>subjectContains\<close> matches every
  message, and at the head of the list it is the rule \<open>findMatchingRule\<close> returns.
\<close>

theorem empty_match_rule_wins:
  "toContains (match rule) = None \<Longrightarrow> subjectContains (match rule) = None \<Longrightarrow>
     rule_matches email rule \<and> findMatchingRule email (rule # rules) = Some rule"
  by (simp add: rule_matches_def)

theorem empty_match_rule_wins_witness:
  "toContains (match catch_all_rule) = None \<and> subjectContains (match catch_all_rule) = None \<and>
   findMatchingRule sales_email [catch_all_rule, sales_rule, quote_rule] = Some catch_all_rule"
  using empty_match_rule_wins [of catch_all_rule sales_email "[sales_rule, quote_rule]"]
  by (simp add: catch_all_rule_def)

section \<open>Properties of the customer directory client\<close>

lemma findOrCreateCustomer_cases:
  "findOrCreateCustomer up cd log =
     (let r = users_search up log (cd_email cd); log1 = log @ [Searched (cd_email cd) r] in
      case r of
        NoResponse m \<Rightarrow> (Inl (AxiosError m None), log1)
      | Rejected s b \<Rightarrow> (Inl (AxiosError ''Request failed with status code'' (Some (s, b))), log1)
      | Accepted (Some (c # cs)) \<Rightarrow> (Inr (Some c), log1)
      | Accepted other \<Rightarrow>
          (let r2 = users_post up log1 cd [''Customer'']
           in (axios_result r2, log1 @ [UserPosted cd [''Customer''] r2])))"
  by (auto simp: findOrCreateCustomer_def get_users_search_def post_users_def axios_result_def Let_def
      split: response.splits option.splits list.splits sum.splits)

lemma worker_findOrCreateCustomer_cases:
  "worker_findOrCreateCustomer up u t cd log =
     (let r = users_search up log (cd_email cd); log1 = log @ [Searched (cd_email cd) r] in
      case r of
        NoResponse m \<Rightarrow> (Inl (FetchError m), log1)
      | Accepted (Some (c # cs)) \<Rightarrow> (Inr (Some c), log1)
      | other \<Rightarrow>
          (let r2 = users_post up log1 cd [''Customer''];
               log2 = log1 @ [UserPosted cd [''Customer''] r2]
           in case r2 of
                NoResponse m \<Rightarrow> (Inl (FetchError m), log2)
              | Rejected s b \<Rightarrow> (Inl (Error ''Failed to create customer''), log2)
              | Accepted created \<Rightarrow> (Inr created, log2)))"
  by (auto simp: worker_findOrCreateCustomer_def get_users_search_def post_users_def Let_def
      split: response.splits option.splits list.splits sum.splits)

lemma findOrCreateCustomer_log:
  "\<exists>evs. snd (findOrCreateCustomer up cd log) = log @ evs \<and> filter is_ticket_post evs = [] \<and>
         filter is_forward evs = [] \<and>
         length (filter is_search evs) \<le> 1 \<and> length (filter is_user_post evs) \<le> 1"
  by (auto simp: findOrCreateCustomer_cases Let_def
      split: response.splits option.splits list.splits)

lemma worker_findOrCreateCustomer_log:
  "\<exists>evs. snd (worker_findOrCreateCustomer up u t cd log) = log @ evs \<and>
         filter is_ticket_post evs = [] \<and> filter is_forward evs = [] \<and>
         length (filter is_search evs) \<le> 1 \<and> length (filter is_user_post evs) \<le> 1"
  by (auto simp: worker_findOrCreateCustomer_cases Let_def
      split: response.splits option.splits list.splits)

text \<open>
  C3, in the form that holds of the code. Both \<open>findOrCreateCustomer\<close>
  functions issue the search first. The integration issues the creation request exactly
  when the search is accepted with no result; the worker also when the search response is
  not ok. When the search is accepted with results, no creation is requested and the
  customer returned is the first result, as the directory gave it: its email is not
  compared with the query.
\<close>

theorem findOrCreateCustomer_search_then_create:
  "take (Suc (length log)) (snd (findOrCreateCustomer up cd log)) =
     log @ [Searched (cd_email cd) (users_search up log (cd_email cd))] \<and>
   (list_ex is_user_post (drop (length log) (snd (findOrCreateCustomer up cd log))) \<longleftrightarrow>
      users_search up log (cd_email cd) = Accepted None \<or>
      users_search up log (cd_email cd) = Accepted (Some [])) \<and>
   (\<forall>c cs. users_search up log (cd_email cd) = Accepted (Some (c # cs)) \<longrightarrow>
      findOrCreateCustomer up cd log =
        (Inr (Some c), log @ [Searched (cd_email cd) (Accepted (Some (c # cs)))])) \<and>
   take (Suc (length log)) (snd (worker_findOrCreateCustomer up base_url api_token cd log)) =
     log @ [Searched (cd_email cd) (users_search up log (cd_email cd))] \<and>
   (list_ex is_user_post
      (drop (length log) (snd (worker_findOrCreateCustomer up base_url api_token cd log))) \<longleftrightarrow>
      users_search up log (cd_email cd) = Accepted None \<or>
      users_search up log (cd_email cd) = Accepted (Some []) \<or>
      (\<exists>status body. users_search up log (cd_email cd) = Rejected status body)) \<and>
   (\<forall>c cs. users_search up log (cd_email cd) = Accepted (Some (c # cs)) \<longrightarrow>
      worker_findOrCreateCustomer up base_url api_token cd log =
        (Inr (Some c), log @ [Searched (cd_email cd) (Accepted (Some (c # cs)))]))"
proof -
  have a: "take (Suc (length log)) (snd (findOrCreateCustomer up cd log)) =
     log @ [Searched (cd_email cd) (users_search up log (cd_email cd))]"
    by (simp add: findOrCreateCustomer_cases Let_def
        split: response.splits option.splits list.splits)
  have b: "list_ex is_user_post (drop (length log) (snd (findOrCreateCustomer up cd log))) \<longleftrightarrow>
      users_search up log (cd_email cd) = Accepted None \<or>
      users_search up log (cd_email cd) = Accepted (Some [])"
    by (simp add: findOrCreateCustomer_cases Let_def
        split: response.splits option.splits list.splits)
  have c: "\<forall>c cs. users_search up log (cd_email cd) = Accepted (Some (c # cs)) \<longrightarrow>
      findOrCreateCustomer up cd log =
        (Inr (Some c), log @ [Searched (cd_email cd) (Accepted (Some (c # cs)))])"
    by (simp add: findOrCreateCustomer_cases Let_def)
  have d: "take (Suc (length log)) (snd (worker_findOrCreateCustomer up base_url api_token cd log)) =
     log @ [Searched (cd_email cd) (users_search up log (cd_email cd))]"
    by (simp add: worker_findOrCreateCustomer_cases Let_def
        split: response.splits option.splits list.splits)
  have e: "list_ex is_user_post
      (drop (length log) (snd (worker_findOrCreateCustomer up base_url api_token cd log))) \<longleftrightarrow>
      users_search up log (cd_email cd) = Accepted None \<or>
      users_search up log (cd_email cd) = Accepted (Some []) \<or>
      (\<exists>status body. users_search up log (cd_email cd) = Rejected status body)"
    by (simp add: worker_findOrCreateCustomer_cases Let_def
        split: response.splits option.splits list.splits)
  have f: "\<forall>c cs. users_search up log (cd_email cd) = Accepted (Some (c # cs)) \<longrightarrow>
      worker_findOrCreateCustomer up base_url api_token cd log =
        (Inr (Some c), log @ [Searched (cd_email cd) (Accepted (Some (c # cs)))])"
    by (simp add: worker_findOrCreateCustomer_cases Let_def)
  from a b c d e f show ?thesis by blast
qed

theorem findOrCreateCustomer_search_then_create_witness:
  "users_search fuzzy_upstream [] (cd_email ann_data) = Accepted (Some [other_customer]) \<and>
   findOrCreateCustomer fuzzy_upstream ann_data [] =
     (Inr (Some other_customer), [Searched ''ann@b.com'' (Accepted (Some [other_customer]))]) \<and>
   worker_findOrCreateCustomer fuzzy_upstream ''https://help.vln.gg'' ''secret'' ann_data [] =
     (Inr (Some other_customer), [Searched ''ann@b.com'' (Accepted (Some [other_customer]))]) \<and>
   users_search accepting_upstream [] (cd_email ann_data) = Accepted (Some []) \<and>
   list_ex is_user_post
     (drop (length ([] :: string event list)) (snd (findOrCreateCustomer accepting_upstream ann_data []))) \<and>
   list_ex is_user_post
     (drop (length ([] :: string event list))
        (snd (worker_findOrCreateCustomer accepting_upstream ''https://help.vln.gg'' ''secret''
                ann_data [])))"
proof -
  have s: "users_search fuzzy_upstream [] (cd_email ann_data) = Accepted (Some [other_customer])"
    by (simp add: fuzzy_upstream_def)
  have e: "cd_email ann_data = ''ann@b.com''"
    by (simp add: ann_data_def)
  from s e
    findOrCreateCustomer_search_then_create
      [of "[]" fuzzy_upstream ann_data "''https://help.vln.gg''" "''secret''"]
  have found: "findOrCreateCustomer fuzzy_upstream ann_data [] =
     (Inr (Some other_customer), [Searched ''ann@b.com'' (Accepted (Some [other_customer]))]) \<and>
   worker_findOrCreateCustomer fuzzy_upstream ''https://help.vln.gg'' ''secret'' ann_data [] =
     (Inr (Some other_customer), [Searched ''ann@b.com'' (Accepted (Some [other_customer]))])"
    by simp
  have a: "users_search accepting_upstream [] (cd_email ann_data) = Accepted (Some [])"
    by (simp add: accepting_upstream_def)
  from a
    findOrCreateCustomer_search_then_create
      [of "[]" accepting_upstream ann_data "''https://help.vln.gg''" "''secret''"]
  have created: "list_ex is_user_post
     (drop (length ([] :: string event list)) (snd (findOrCreateCustomer accepting_upstream ann_data []))) \<and>
   list_ex is_user_post
     (drop (length ([] :: string event list))
        (snd (worker_findOrCreateCustomer accepting_upstream ''https://help.vln.gg'' ''secret''
                ann_data [])))"
    by simp
  from s found a created show ?thesis by (intro conjI) simp_all
qed

theorem findOrCreateCustomer_other_email:
  "fst (findOrCreateCustomer fuzzy_upstream ann_data []) = Inr (Some other_customer) \<and>
   fst (worker_findOrCreateCustomer fuzzy_upstream ''https://help.vln.gg'' ''secret'' ann_data [])
     = Inr (Some other_customer) \<and>
   cd_email ann_data = ''ann@b.com'' \<and> cust_email other_customer = ''anna@b.com'' \<and>
   cust_email other_customer \<noteq> cd_email ann_data"
  by (simp add: findOrCreateCustomer_cases worker_findOrCreateCustomer_cases fuzzy_upstream_def
      ann_data_def other_customer_def)

section \<open>Properties of the integration's \<open>createTicket\<close>\<close>

text \<open>
  C10. When \<open>ZAMMAD_ENABLED\<close> is \<open>'false'\<close>, or no API token is configured, the integration
  the constructor builds is disabled, and \<open>createTicket\<close> returns \<open>null\<close> and issues no
  request at all: the record of requests is the one it was given.
\<close>

theorem createTicket_disabled:
  "ZAMMAD_ENABLED config = Some ''false'' \<or> \<not> truthy (ZAMMAD_API_TOKEN config) \<Longrightarrow>
     enabled (ZammadIntegration config) = False \<and>
     createTicket (ZammadIntegration config) up email domainConfig log = (Inr None, log)"
  by (auto simp: createTicket_def ZammadIntegration_def Let_def)

theorem createTicket_disabled_witness:
  "ZAMMAD_ENABLED switched_off_config = Some ''false'' \<and>
   createTicket (ZammadIntegration switched_off_config) accepting_upstream sales_email sales_domain []
     = (Inr None, []) \<and>
   truthy (ZAMMAD_API_TOKEN tokenless_config) = False \<and>
   createTicket (ZammadIntegration tokenless_config) accepting_upstream sales_email sales_domain []
     = (Inr None, [])"
proof -
  have off: "ZAMMAD_ENABLED switched_off_config = Some ''false''"
    by (simp add: switched_off_config_def live_config_def)
  have tokenless: "\<not> truthy (ZAMMAD_API_TOKEN tokenless_config)"
    by (simp add: tokenless_config_def live_config_def truthy_def)
  from off tokenless
    createTicket_disabled [of switched_off_config accepting_upstream sales_email sales_domain "[]"]
    createTicket_disabled [of tokenless_config accepting_upstream sales_email sales_domain "[]"]
  show ?thesis by simp
qed

section \<open>The requests of a ticket creation\<close>

text \<open>
  What \<open>createTicket\<close> and \<open>createZammadTicket\<close> add to the record of requests: at most
  one search, at most one customer creation, no forward, and at most one ticket
  submission, whose payload and whose effect on the result are as follows.
\<close>

lemma createTicket_cases:
  "createTicket this up email dc log =
    (if \<not> enabled this then (Inr None, log)
     else case customerName_of email of
        Inl error \<Rightarrow> (Inl error, log)
      | Inr customerName \<Rightarrow>
         (let found = findOrCreateCustomer up
                      \<lparr> cd_email = customerEmail_of email,
                        cd_firstname = firstname_of customerName,
                        cd_lastname = lastname_of customerName \<rparr> log
          in case fst found of
               Inl error \<Rightarrow> (Inl error, snd found)
             | Inr None \<Rightarrow> (Inl (TypeError ''Cannot read properties of null (reading id)''), snd found)
             | Inr (Some customer) \<Rightarrow>
                (let td = ticketData_of email dc (customerEmail_of email) customer;
                     r = tickets_post up (snd found) td
                 in ((case axios_result r of
                       Inl error \<Rightarrow> Inl error
                     | Inr None \<Rightarrow> Inl (TypeError ''Cannot read properties of null (reading id)'')
                     | Inr (Some data) \<Rightarrow> Inr (Some data)), snd found @ [TicketPosted td r]))))"
  by (auto simp: createTicket_def post_tickets_def Let_def split: sum.splits option.splits prod.splits)

lemma createZammadTicket_cases:
  "createZammadTicket up email env log =
    (if \<not> truthy (ZAMMAD_API_TOKEN env) then (None, log)
     else
       (let customerName = or_else (extractName (p_from email)) (hd (split_on CHR ''@'' (p_from email)));
            found = worker_findOrCreateCustomer up
                      (or_else (ZAMMAD_URL env) ''https://help.vln.gg'')
                      (or_else (ZAMMAD_API_TOKEN env) [])
                      \<lparr> cd_email = p_from email,
                        cd_firstname = firstname_of customerName,
                        cd_lastname = lastname_of customerName \<rparr> log
        in case fst found of
             Inl error \<Rightarrow> (None, snd found)
           | Inr None \<Rightarrow> (None, snd found)
           | Inr (Some customer) \<Rightarrow>
               (let td = worker_ticketData email customer;
                    r = tickets_post up (snd found) td
                in ((case r of Accepted data \<Rightarrow> data | other \<Rightarrow> None),
                    snd found @ [TicketPosted td r]))))"
  by (auto simp: createZammadTicket_def post_tickets_def Let_def
      split: sum.splits option.splits prod.splits response.splits)

lemma createTicket_log:
  "\<exists>evs. snd (createTicket this up email dc log) = log @ evs \<and>
      length (filter is_search evs) \<le> 1 \<and> length (filter is_user_post evs) \<le> 1 \<and>
      filter is_forward evs = [] \<and>
      (filter is_ticket_post evs = [] \<or>
       (\<exists>customer r.
          filter is_ticket_post evs =
            [TicketPosted (ticketData_of email dc (customerEmail_of email) customer) r] \<and>
          fst (createTicket this up email dc log) =
            (case axios_result r of
               Inl error \<Rightarrow> Inl error
             | Inr None \<Rightarrow> Inl (TypeError ''Cannot read properties of null (reading id)'')
             | Inr (Some data) \<Rightarrow> Inr (Some data))))"
proof (cases "enabled this")
  case False
  then show ?thesis by (simp add: createTicket_cases)
next
  case True
  show ?thesis
  proof (cases "customerName_of email")
    case (Inl e)
    with True show ?thesis by (simp add: createTicket_cases)
  next
    case (Inr name)
    define cd where "cd = \<lparr> cd_email = customerEmail_of email,
                        cd_firstname = firstname_of name,
                        cd_lastname = lastname_of name \<rparr>"
    obtain evs where evs: "snd (findOrCreateCustomer up cd log) = log @ evs"
      "filter is_ticket_post evs = []" "filter is_forward evs = []"
      "length (filter is_search evs) \<le> 1" "length (filter is_user_post evs) \<le> 1"
      using findOrCreateCustomer_log [of up cd log] by blast
    show ?thesis
    proof (cases "fst (findOrCreateCustomer up cd log)")
      case (Inl e)
      with True Inr evs show ?thesis
        by (simp add: createTicket_cases cd_def [symmetric] Let_def)
    next
      case found: (Inr c)
      show ?thesis
      proof (cases c)
        case None
        with found True Inr evs show ?thesis
          by (simp add: createTicket_cases cd_def [symmetric] Let_def)
      next
        case (Some customer)
        with found True Inr evs show ?thesis
          by (auto simp add: createTicket_cases cd_def [symmetric] Let_def)
      qed
    qed
  qed
qed

lemma createZammadTicket_log:
  "\<exists>evs. snd (createZammadTicket up email env log) = log @ evs \<and>
      length (filter is_search evs) \<le> 1 \<and> length (filter is_user_post evs) \<le> 1 \<and>
      filter is_forward evs = [] \<and>
      (filter is_ticket_post evs = [] \<and> fst (createZammadTicket up email env log) = None \<or>
       (\<exists>customer r.
          filter is_ticket_post evs = [TicketPosted (worker_ticketData email customer) r] \<and>
          fst (createZammadTicket up email env log) =
            (case r of Accepted data \<Rightarrow> data | other \<Rightarrow> None)))"
proof (cases "truthy (ZAMMAD_API_TOKEN env)")
  case False
  then show ?thesis by (simp add: createZammadTicket_cases)
next
  case True
  define name where
    "name = or_else (extractName (p_from email)) (hd (split_on CHR ''@'' (p_from email)))"
  define cd where "cd = \<lparr> cd_email = p_from email,
                        cd_firstname = firstname_of name,
                        cd_lastname = lastname_of name \<rparr>"
  define u where "u = or_else (ZAMMAD_URL env) ''https://help.vln.gg''"
  define t where "t = or_else (ZAMMAD_API_TOKEN env) []"
  obtain evs where evs: "snd (worker_findOrCreateCustomer up u t cd log) = log @ evs"
      "filter is_ticket_post evs = []" "filter is_forward evs = []"
      "length (filter is_search evs) \<le> 1" "length (filter is_user_post evs) \<le> 1"
    using worker_findOrCreateCustomer_log [of up u t cd log] by blast
  show ?thesis
  proof (cases "fst (worker_findOrCreateCustomer up u t cd log)")
    case (Inl e)
    with True evs show ?thesis
      by (simp add: createZammadTicket_cases name_def [symmetric] cd_def [symmetric]
          u_def [symmetric] t_def [symmetric] Let_def)
  next
    case found: (Inr c)
    show ?thesis
    proof (cases c)
      case None
      with found True evs show ?thesis
        by (simp add: createZammadTicket_cases name_def [symmetric] cd_def [symmetric]
            u_def [symmetric] t_def [symmetric] Let_def)
    next
      case (Some customer)
      with found True evs show ?thesis
        by (auto simp add: createZammadTicket_cases name_def [symmetric] cd_def [symmetric]
            u_def [symmetric] t_def [symmetric] Let_def)
    qed
  qed
qed

lemma ticket_post_in_new_events:
  assumes "log' = log @ evs" and "TicketPosted td r \<in> set (drop (length log) log')"
  shows "TicketPosted td r \<in> set (filter is_ticket_post evs)"
  using assms by simp

lemma createTicket_submission:
  assumes "TicketPosted td r \<in> set (drop (length log) (snd (createTicket this up email dc log)))"
  shows "(\<exists>customer. td = ticketData_of email dc (customerEmail_of email) customer) \<and>
         fst (createTicket this up email dc log) =
            (case axios_result r of
               Inl error \<Rightarrow> Inl error
             | Inr None \<Rightarrow> Inl (TypeError ''Cannot read properties of null (reading id)'')
             | Inr (Some data) \<Rightarrow> Inr (Some data))"
proof -
  obtain evs where evs: "snd (createTicket this up email dc log) = log @ evs"
    and alt: "filter is_ticket_post evs = [] \<or>
       (\<exists>customer r.
          filter is_ticket_post evs =
            [TicketPosted (ticketData_of email dc (customerEmail_of email) customer) r] \<and>
          fst (createTicket this up email dc log) =
            (case axios_result r of
               Inl error \<Rightarrow> Inl error
             | Inr None \<Rightarrow> Inl (TypeError ''Cannot read properties of null (reading id)'')
             | Inr (Some data) \<Rightarrow> Inr (Some data)))"
    using createTicket_log [of this up email dc log] by blast
  from ticket_post_in_new_events [OF evs assms]
  have mem: "TicketPosted td r \<in> set (filter is_ticket_post evs)" .
  from alt show ?thesis
  proof (elim disjE exE conjE)
    assume e: "filter is_ticket_post evs = []"
    from mem [unfolded e] show ?thesis by simp
  next
    fix customer r'
    assume e: "filter is_ticket_post evs =
            [TicketPosted (ticketData_of email dc (customerEmail_of email) customer) r']"
      and res: "fst (createTicket this up email dc log) =
            (case axios_result r' of
               Inl error \<Rightarrow> Inl error
             | Inr None \<Rightarrow> Inl (TypeError ''Cannot read properties of null (reading id)'')
             | Inr (Some data) \<Rightarrow> Inr (Some data))"
    from mem [unfolded e] have "td = ticketData_of email dc (customerEmail_of email) customer" "r = r'"
      by simp_all
    with res show ?thesis by blast
  qed
qed

lemma createZammadTicket_submission:
  assumes "TicketPosted td r \<in> set (drop (length log) (snd (createZammadTicket up email env log)))"
  shows "(\<exists>customer. td = worker_ticketData email customer) \<and>
         fst (createZammadTicket up email env log) = (case r of Accepted data \<Rightarrow> data | other \<Rightarrow> None)"
proof -
  obtain evs where evs: "snd (createZammadTicket up email env log) = log @ evs"
    and alt: "filter is_ticket_post evs = [] \<and> fst (createZammadTicket up email env log) = None \<or>
       (\<exists>customer r.
          filter is_ticket_post evs = [TicketPosted (worker_ticketData email customer) r] \<and>
          fst (createZammadTicket up email env log) =
            (case r of Accepted data \<Rightarrow> data | other \<Rightarrow> None))"
    using createZammadTicket_log [of up email env log] by blast
  from ticket_post_in_new_events [OF evs assms]
  have mem: "TicketPosted td r \<in> set (filter is_ticket_post evs)" .
  from alt show ?thesis
  proof (elim disjE exE conjE)
    assume e: "filter is_ticket_post evs = []"
    from mem [unfolded e] show ?thesis by simp
  next
    fix customer r'
    assume e: "filter is_ticket_post evs = [TicketPosted (worker_ticketData email customer) r']"
      and res: "fst (createZammadTicket up email env log) =
            (case r' of Accepted data \<Rightarrow> data | other \<Rightarrow> None)"
    from mem [unfolded e] have "td = worker_ticketData email customer" "r = r'"
      by simp_all
    with res show ?thesis by blast
  qed
qed

section \<open>The example runs\<close>

lemmas example_defs =
  sales_email_def sales_domain_def sales_rule_def quote_rule_def live_config_def
  new_customer_def sales_payload_def delivery_payload_def parsed_delivery_def

lemmas string_defs =
  or_else_def truthy_def toLowerCase_def lower_char_def firstname_of_def lastname_of_def
  is_space_def trim_def skip_quote_def

lemma sales_ticketData:
  "ticketData_of sales_email sales_domain (FromString ''a@b.com'') new_customer = sales_payload"
  by (simp add: ticketData_of_def example_defs string_defs rule_matches_def Let_def)

lemma delivery_ticketData:
  "worker_ticketData parsed_delivery new_customer = delivery_payload"
  by (simp add: worker_ticketData_def example_defs string_defs)

lemma sales_customer:
  "customerName_of sales_email = Inr ''Ann Bee'' \<and>
   customerEmail_of sales_email = FromString ''a@b.com'' \<and>
   firstname_of ''Ann Bee'' = ''Ann'' \<and> lastname_of ''Ann Bee'' = ''Bee''"
  by (simp add: customerName_of_def customerEmail_of_def example_defs string_defs)

lemma delivery_customer:
  "extractName ''a@b.com'' = None \<and> hd (split_on CHR ''@'' ''a@b.com'') = ''a'' \<and>
   firstname_of ''a'' = ''a'' \<and> lastname_of ''a'' = []"
  by (simp add: extractName_def string_defs)

lemma createTicket_sales_accepted:
  "createTicket (ZammadIntegration live_config) accepting_upstream sales_email sales_domain [] =
     (Inr (Some \<lparr> ticket_id = 1 \<rparr>),
      [Searched (FromString ''a@b.com'') (Accepted (Some [])),
       UserPosted \<lparr> cd_email = FromString ''a@b.com'', cd_firstname = ''Ann'', cd_lastname = ''Bee'' \<rparr>
         [''Customer''] (Accepted (Some new_customer)),
       TicketPosted sales_payload (Accepted (Some \<lparr> ticket_id = 1 \<rparr>))])"
  by (simp add: createTicket_cases findOrCreateCustomer_cases sales_customer sales_ticketData
      ZammadIntegration_def live_config_def accepting_upstream_def axios_result_def
      tickets_created_def truthy_def Let_def)

lemma createTicket_sales_unavailable:
  "createTicket (ZammadIntegration live_config) unavailable_upstream sales_email sales_domain [] =
     (Inl (AxiosError ''Request failed with status code'' (Some (503, ''Service Unavailable''))),
      [Searched (FromString ''a@b.com'') (Accepted (Some [])),
       UserPosted \<lparr> cd_email = FromString ''a@b.com'', cd_firstname = ''Ann'', cd_lastname = ''Bee'' \<rparr>
         [''Customer''] (Accepted (Some new_customer)),
       TicketPosted sales_payload (Rejected 503 ''Service Unavailable'')])"
  by (simp add: createTicket_cases findOrCreateCustomer_cases sales_customer sales_ticketData
      ZammadIntegration_def live_config_def unavailable_upstream_def axios_result_def
      truthy_def Let_def)

lemma createZammadTicket_delivery_accepted:
  "createZammadTicket accepting_upstream parsed_delivery live_config log =
     (Some \<lparr> ticket_id = Suc (tickets_created log) \<rparr>,
      log @
      [Searched ''a@b.com'' (Accepted (Some [])),
       UserPosted \<lparr> cd_email = ''a@b.com'', cd_firstname = ''a'', cd_lastname = [] \<rparr>
         [''Customer''] (Accepted (Some new_customer)),
       TicketPosted delivery_payload (Accepted (Some \<lparr> ticket_id = Suc (tickets_created log) \<rparr>))])"
  by (simp add: createZammadTicket_cases worker_findOrCreateCustomer_cases
      delivery_ticketData [unfolded parsed_delivery_def] delivery_customer parsed_delivery_def
      live_config_def accepting_upstream_def tickets_created_def truthy_def or_else_def Let_def)

lemma createZammadTicket_delivery_unavailable:
  "createZammadTicket unavailable_upstream parsed_delivery live_config [] =
     (None,
      [Searched ''a@b.com'' (Accepted (Some [])),
       UserPosted \<lparr> cd_email = ''a@b.com'', cd_firstname = ''a'', cd_lastname = [] \<rparr>
         [''Customer''] (Accepted (Some new_customer)),
       TicketPosted delivery_payload (Rejected 503 ''Service Unavailable'')])"
  by (simp add: createZammadTicket_cases worker_findOrCreateCustomer_cases
      delivery_ticketData [unfolded parsed_delivery_def] delivery_customer parsed_delivery_def
      live_config_def unavailable_upstream_def truthy_def or_else_def Let_def)

lemma createTicket_plain_accepted:
  "snd (createTicket (ZammadIntegration live_config) accepting_upstream plain_email sales_domain [])
     = [Searched (FromString ''a@b.com'') (Accepted (Some [])),
        UserPosted \<lparr> cd_email = FromString ''a@b.com'', cd_firstname = ''a'', cd_lastname = [] \<rparr>
          [''Customer''] (Accepted (Some new_customer)),
        TicketPosted plain_payload (Accepted (Some \<lparr> ticket_id = 1 \<rparr>))]"
proof -
  have c: "customerName_of plain_email = Inr ''a'' \<and>
      customerEmail_of plain_email = FromString ''a@b.com''"
    by (simp add: customerName_of_def customerEmail_of_def plain_email_def string_defs)
  have t: "ticketData_of plain_email sales_domain (FromString ''a@b.com'') new_customer = plain_payload"
    by (simp add: ticketData_of_def plain_email_def plain_payload_def example_defs string_defs
        rule_matches_def Let_def)
  show ?thesis
    by (simp add: createTicket_cases findOrCreateCustomer_cases c t delivery_customer
      ZammadIntegration_def live_config_def accepting_upstream_def axios_result_def
      tickets_created_def truthy_def Let_def)
qed

lemma createTicket_sales_silent:
  "createTicket (ZammadIntegration live_config) silent_upstream sales_email sales_domain [] =
     (Inl (AxiosError ''timeout of 10000ms exceeded'' None),
      [Searched (FromString ''a@b.com'') (Accepted (Some [])),
       UserPosted \<lparr> cd_email = FromString ''a@b.com'', cd_firstname = ''Ann'', cd_lastname = ''Bee'' \<rparr>
         [''Customer''] (Accepted (Some new_customer)),
       TicketPosted sales_payload (NoResponse ''timeout of 10000ms exceeded'')])"
  by (simp add: createTicket_cases findOrCreateCustomer_cases sales_customer sales_ticketData
      ZammadIntegration_def live_config_def silent_upstream_def axios_result_def
      truthy_def Let_def)

lemma createZammadTicket_example_run:
  assumes "users_search up [] ''a@b.com'' = Accepted (Some [])"
    and "users_post up [Searched ''a@b.com'' (Accepted (Some []))]
           \<lparr> cd_email = ''a@b.com'', cd_firstname = ''a'', cd_lastname = [] \<rparr> [''Customer'']
         = Accepted (Some new_customer)"
    and "p_from email = ''a@b.com''"
  shows "snd (createZammadTicket up email live_config []) =
      [Searched ''a@b.com'' (Accepted (Some [])),
       UserPosted \<lparr> cd_email = ''a@b.com'', cd_firstname = ''a'', cd_lastname = [] \<rparr>
         [''Customer''] (Accepted (Some new_customer)),
       TicketPosted (worker_ticketData email new_customer)
         (tickets_post up
            [Searched ''a@b.com'' (Accepted (Some [])),
             UserPosted \<lparr> cd_email = ''a@b.com'', cd_firstname = ''a'', cd_lastname = [] \<rparr>
               [''Customer''] (Accepted (Some new_customer))]
            (worker_ticketData email new_customer))]"
  using assms
  by (simp add: createZammadTicket_cases worker_findOrCreateCustomer_cases delivery_customer
      live_config_def truthy_def or_else_def Let_def)

lemma createZammadTicket_html_accepted:
  "snd (createZammadTicket accepting_upstream html_delivery live_config []) =
      [Searched ''a@b.com'' (Accepted (Some [])),
       UserPosted \<lparr> cd_email = ''a@b.com'', cd_firstname = ''a'', cd_lastname = [] \<rparr>
         [''Customer''] (Accepted (Some new_customer)),
       TicketPosted html_payload (Accepted (Some \<lparr> ticket_id = 1 \<rparr>))]"
proof -
  have t: "worker_ticketData html_delivery new_customer = html_payload"
    by (simp add: worker_ticketData_def html_delivery_def html_payload_def parsed_delivery_def
        new_customer_def string_defs)
  have "snd (createZammadTicket accepting_upstream html_delivery live_config []) =
      [Searched ''a@b.com'' (Accepted (Some [])),
       UserPosted \<lparr> cd_email = ''a@b.com'', cd_firstname = ''a'', cd_lastname = [] \<rparr>
         [''Customer''] (Accepted (Some new_customer)),
       TicketPosted (worker_ticketData html_delivery new_customer)
         (tickets_post accepting_upstream
            [Searched ''a@b.com'' (Accepted (Some [])),
             UserPosted \<lparr> cd_email = ''a@b.com'', cd_firstname = ''a'', cd_lastname = [] \<rparr>
               [''Customer''] (Accepted (Some new_customer))]
            (worker_ticketData html_delivery new_customer))]"
    by (rule createZammadTicket_example_run)
       (simp_all add: accepting_upstream_def html_delivery_def parsed_delivery_def)
  then show ?thesis
    by (simp add: t) (simp add: accepting_upstream_def tickets_created_def)
qed

lemma createZammadTicket_text_accepted:
  "snd (createZammadTicket accepting_upstream text_delivery live_config []) =
      [Searched ''a@b.com'' (Accepted (Some [])),
       UserPosted \<lparr> cd_email = ''a@b.com'', cd_firstname = ''a'', cd_lastname = [] \<rparr>
         [''Customer''] (Accepted (Some new_customer)),
       TicketPosted text_payload (Accepted (Some \<lparr> ticket_id = 1 \<rparr>))]"
proof -
  have t: "worker_ticketData text_delivery new_customer = text_payload"
    by (simp add: worker_ticketData_def text_delivery_def text_payload_def parsed_delivery_def
        new_customer_def string_defs)
  have "snd (createZammadTicket accepting_upstream text_delivery live_config []) =
      [Searched ''a@b.com'' (Accepted (Some [])),
       UserPosted \<lparr> cd_email = ''a@b.com'', cd_firstname = ''a'', cd_lastname = [] \<rparr>
         [''Customer''] (Accepted (Some new_customer)),
       TicketPosted (worker_ticketData text_delivery new_customer)
         (tickets_post accepting_upstream
            [Searched ''a@b.com'' (Accepted (Some [])),
             UserPosted \<lparr> cd_email = ''a@b.com'', cd_firstname = ''a'', cd_lastname = [] \<rparr>
               [''Customer''] (Accepted (Some new_customer))]
            (worker_ticketData text_delivery new_customer))]"
    by (rule createZammadTicket_example_run)
       (simp_all add: accepting_upstream_def text_delivery_def parsed_delivery_def)
  then show ?thesis
    by (simp add: t) (simp add: accepting_upstream_def tickets_created_def)
qed

lemma createZammadTicket_delivery_silent:
  "createZammadTicket silent_upstream parsed_delivery live_config [] =
     (None,
      [Searched ''a@b.com'' (Accepted (Some [])),
       UserPosted \<lparr> cd_email = ''a@b.com'', cd_firstname = ''a'', cd_lastname = [] \<rparr>
         [''Customer''] (Accepted (Some new_customer)),
       TicketPosted delivery_payload (NoResponse ''timeout of 10000ms exceeded'')])"
  by (simp add: createZammadTicket_cases worker_findOrCreateCustomer_cases
      delivery_ticketData [unfolded parsed_delivery_def] delivery_customer parsed_delivery_def
      live_config_def silent_upstream_def truthy_def or_else_def Let_def)

section \<open>The ticket payload\<close>

lemma or_else_None [simp]: "or_else None d = d"
  by (simp add: or_else_def)

lemma ticketData_of_fields:
  "title (ticketData_of email dc customerEmail customer) =
     or_else (email_subject email) ''(No Subject)'' \<and>
   art_subject (article (ticketData_of email dc customerEmail customer)) =
     or_else (email_subject email) ''(No Subject)'' \<and>
   art_body (article (ticketData_of email dc customerEmail customer)) =
     or_else (email_body email) (or_else (email_text email) []) \<and>
   art_content_type (article (ticketData_of email dc customerEmail customer)) =
     (if truthy (email_html email) then ''text/html'' else ''text/plain'') \<and>
   priority (ticketData_of email dc customerEmail customer) =
     (case dc_zammad dc of None \<Rightarrow> ''2 normal'' | Some z \<Rightarrow> or_else (zc_priority z) ''2 normal'') \<and>
   tags (ticketData_of email dc customerEmail customer) =
     (case dc_rules dc of
        None \<Rightarrow> None
      | Some rs \<Rightarrow>
          (case findMatchingRule email rs of
             None \<Rightarrow> None
           | Some matchingRule \<Rightarrow> map_option (join '','') (action_tags (action matchingRule)))) \<and>
   state (ticketData_of email dc customerEmail customer) = ''new''"
  by (simp add: ticketData_of_def Let_def split: option.splits)

text \<open>
  C4, in the form that holds of the code. Every ticket payload \<open>createTicket\<close>
  submits has the subject as title, or \<open>(No Subject)\<close> when the subject is
  absent or empty; as article body \<open>email.body\<close>, else
  \<open>email.text\<close>, else the empty string; content type \<open>text/plain\<close>
  when the email has no HTML body; the priority of the domain's \<open>zammad\<close>
  configuration, else \<open>2 normal\<close> (the matched rule's priority is not read);
  as tags the tags of the first matching rule joined by commas, and none when no rule
  matches or the rule has no tags; and state \<open>new\<close>. Every payload the
  worker's \<open>createZammadTicket\<close> submits has the same title; as body the text,
  else the HTML body, else the empty string; content type \<open>text/plain\<close> when
  there is no HTML body, and \<open>text/html\<close> with the HTML body as article body
  when there is an HTML body and no text; priority \<open>2 normal\<close>, no tags, state
  \<open>new\<close>.
\<close>

theorem createTicket_payload:
  "(TicketPosted td r \<in> set (drop (length log) (snd (createTicket this up email dc log))) \<longrightarrow>
      title td = or_else (email_subject email) ''(No Subject)'' \<and>
      art_body (article td) = or_else (email_body email) (or_else (email_text email) []) \<and>
      (\<not> truthy (email_html email) \<longrightarrow> art_content_type (article td) = ''text/plain'') \<and>
      priority td =
        (case dc_zammad dc of None \<Rightarrow> ''2 normal'' | Some z \<Rightarrow> or_else (zc_priority z) ''2 normal'') \<and>
      tags td =
        (case dc_rules dc of
           None \<Rightarrow> None
         | Some rs \<Rightarrow>
             (case findMatchingRule email rs of
                None \<Rightarrow> None
              | Some matchingRule \<Rightarrow> map_option (join '','') (action_tags (action matchingRule)))) \<and>
      state td = ''new'') \<and>
   (TicketPosted wtd wr \<in> set (drop (length wlog) (snd (createZammadTicket wup wemail env wlog))) \<longrightarrow>
      title wtd = or_else (p_subject wemail) ''(No Subject)'' \<and>
      art_body (article wtd) = or_else (p_text wemail) (or_else (p_html wemail) []) \<and>
      (\<not> truthy (p_html wemail) \<longrightarrow> art_content_type (article wtd) = ''text/plain'') \<and>
      (truthy (p_html wemail) \<and> \<not> truthy (p_text wemail) \<longrightarrow>
         art_content_type (article wtd) = ''text/html'' \<and>
         Some (art_body (article wtd)) = p_html wemail) \<and>
      priority wtd = ''2 normal'' \<and> tags wtd = None \<and> state wtd = ''new'')"
proof -
  have integration: "title td = or_else (email_subject email) ''(No Subject)'' \<and>
      art_body (article td) = or_else (email_body email) (or_else (email_text email) []) \<and>
      (\<not> truthy (email_html email) \<longrightarrow> art_content_type (article td) = ''text/plain'') \<and>
      priority td =
        (case dc_zammad dc of None \<Rightarrow> ''2 normal'' | Some z \<Rightarrow> or_else (zc_priority z) ''2 normal'') \<and>
      tags td =
        (case dc_rules dc of
           None \<Rightarrow> None
         | Some rs \<Rightarrow>
             (case findMatchingRule email rs of
                None \<Rightarrow> None
              | Some matchingRule \<Rightarrow> map_option (join '','') (action_tags (action matchingRule)))) \<and>
      state td = ''new''"
    if "TicketPosted td r \<in> set (drop (length log) (snd (createTicket this up email dc log)))"
  proof -
    from that obtain customer where
      td: "td = ticketData_of email dc (customerEmail_of email) customer"
      using createTicket_submission by blast
    show ?thesis
      unfolding td using ticketData_of_fields [of email dc "customerEmail_of email" customer]
      by simp
  qed
  have worker: "title wtd = or_else (p_subject wemail) ''(No Subject)'' \<and>
      art_body (article wtd) = or_else (p_text wemail) (or_else (p_html wemail) []) \<and>
      (\<not> truthy (p_html wemail) \<longrightarrow> art_content_type (article wtd) = ''text/plain'') \<and>
      (truthy (p_html wemail) \<and> \<not> truthy (p_text wemail) \<longrightarrow>
         art_content_type (article wtd) = ''text/html'' \<and>
         Some (art_body (article wtd)) = p_html wemail) \<and>
      priority wtd = ''2 normal'' \<and> tags wtd = None \<and> state wtd = ''new''"
    if "TicketPosted wtd wr \<in> set (drop (length wlog) (snd (createZammadTicket wup wemail env wlog)))"
  proof -
    from that obtain customer where td: "wtd = worker_ticketData wemail customer"
      using createZammadTicket_submission by blast
    show ?thesis
      unfolding td
      by (auto simp add: worker_ticketData_def truthy_def or_else_def split: option.splits)
  qed
  from integration worker show ?thesis by blast
qed

text \<open>
  The example email is accepted with the payload above; the example delivery likewise.
\<close>

theorem createTicket_payload_witness:
  "TicketPosted sales_payload (Accepted (Some \<lparr> ticket_id = 1 \<rparr>)) \<in>
     set (drop (length ([] :: js_from event list))
       (snd (createTicket (ZammadIntegration live_config) accepting_upstream sales_email
          sales_domain []))) \<and>
   title sales_payload = ''Quote request'' \<and>
   tags sales_payload = Some ''sales,lead'' \<and>
   state sales_payload = ''new'' \<and>
   TicketPosted plain_payload (Accepted (Some \<lparr> ticket_id = 1 \<rparr>)) \<in>
     set (drop (length ([] :: js_from event list))
       (snd (createTicket (ZammadIntegration live_config) accepting_upstream plain_email
          sales_domain []))) \<and>
   truthy (email_html plain_email) = False \<and>
   title plain_payload = ''(No Subject)'' \<and>
   art_content_type (article plain_payload) = ''text/plain'' \<and>
   TicketPosted html_payload (Accepted (Some \<lparr> ticket_id = 1 \<rparr>)) \<in>
     set (drop (length ([] :: string event list))
       (snd (createZammadTicket accepting_upstream html_delivery live_config []))) \<and>
   truthy (p_html html_delivery) \<and> truthy (p_text html_delivery) = False \<and>
   art_content_type (article html_payload) = ''text/html'' \<and>
   Some (art_body (article html_payload)) = p_html html_delivery \<and>
   TicketPosted text_payload (Accepted (Some \<lparr> ticket_id = 1 \<rparr>)) \<in>
     set (drop (length ([] :: string event list))
       (snd (createZammadTicket accepting_upstream text_delivery live_config []))) \<and>
   truthy (p_html text_delivery) = False \<and>
   art_content_type (article text_payload) = ''text/plain'' \<and>
   priority text_payload = ''2 normal'' \<and> tags text_payload = None"
proof -
  have a: "TicketPosted sales_payload (Accepted (Some \<lparr> ticket_id = 1 \<rparr>)) \<in>
     set (drop (length ([] :: js_from event list))
       (snd (createTicket (ZammadIntegration live_config) accepting_upstream sales_email
          sales_domain [])))"
    by (simp add: createTicket_sales_accepted)
  have b: "TicketPosted plain_payload (Accepted (Some \<lparr> ticket_id = 1 \<rparr>)) \<in>
     set (drop (length ([] :: js_from event list))
       (snd (createTicket (ZammadIntegration live_config) accepting_upstream plain_email
          sales_domain [])))"
    by (simp add: createTicket_plain_accepted)
  have c: "TicketPosted html_payload (Accepted (Some \<lparr> ticket_id = 1 \<rparr>)) \<in>
     set (drop (length ([] :: string event list))
       (snd (createZammadTicket accepting_upstream html_delivery live_config [])))"
    by (simp add: createZammadTicket_html_accepted)
  have d: "TicketPosted text_payload (Accepted (Some \<lparr> ticket_id = 1 \<rparr>)) \<in>
     set (drop (length ([] :: string event list))
       (snd (createZammadTicket accepting_upstream text_delivery live_config [])))"
    by (simp add: createZammadTicket_text_accepted)
  have m: "findMatchingRule sales_email [sales_rule, quote_rule] = Some sales_rule"
    by (simp add: sales_email_def sales_rule_def rule_matches_def string_defs)
  have s: "or_else (email_subject sales_email) ''(No Subject)'' = ''Quote request''"
    by (simp add: sales_email_def or_else_def)
  have t: "map_option (join '','') (action_tags (action sales_rule)) = Some ''sales,lead''"
    by (simp add: sales_rule_def)
  have p: "\<not> truthy (email_html plain_email)" "or_else (email_subject plain_email) ''(No Subject)'' = ''(No Subject)''"
    by (simp_all add: plain_email_def truthy_def)
  have h: "truthy (p_html html_delivery)" "\<not> truthy (p_text html_delivery)"
    by (simp_all add: html_delivery_def parsed_delivery_def truthy_def)
  have x: "\<not> truthy (p_html text_delivery)"
    by (simp add: text_delivery_def parsed_delivery_def truthy_def)
  from createTicket_payload
    [of sales_payload "Accepted (Some \<lparr> ticket_id = 1 \<rparr>)" "[]" "ZammadIntegration live_config"
        accepting_upstream sales_email sales_domain
        html_payload "Accepted (Some \<lparr> ticket_id = 1 \<rparr>)" "[]" accepting_upstream
        html_delivery live_config]
    a c m s t h
  have first: "title sales_payload = ''Quote request'' \<and>
      tags sales_payload = Some ''sales,lead'' \<and> state sales_payload = ''new'' \<and>
      art_content_type (article html_payload) = ''text/html'' \<and>
      Some (art_body (article html_payload)) = p_html html_delivery"
    by (simp add: sales_domain_def html_delivery_def parsed_delivery_def or_else_def)
  from createTicket_payload
    [of plain_payload "Accepted (Some \<lparr> ticket_id = 1 \<rparr>)" "[]" "ZammadIntegration live_config"
        accepting_upstream plain_email sales_domain
        text_payload "Accepted (Some \<lparr> ticket_id = 1 \<rparr>)" "[]" accepting_upstream
        text_delivery live_config]
    b d p x
  have second: "title plain_payload = ''(No Subject)'' \<and>
      art_content_type (article plain_payload) = ''text/plain'' \<and>
      art_content_type (article text_payload) = ''text/plain'' \<and>
      priority text_payload = ''2 normal'' \<and> tags text_payload = None"
    by simp
  from a b c d p h x first second show ?thesis by (intro conjI) simp_all
qed

text \<open>
  The example email has a text and an HTML body, and the first rule, whose priority is
  \<open>high\<close>, matches it: the article body is the text, the content type is \<open>text/html\<close>,
  and the priority is \<open>2 normal\<close>.
\<close>

theorem createTicket_payload_mismatch:
  "snd (createTicket (ZammadIntegration live_config) accepting_upstream sales_email sales_domain [])
     = [Searched (FromString ''a@b.com'') (Accepted (Some [])),
        UserPosted \<lparr> cd_email = FromString ''a@b.com'', cd_firstname = ''Ann'', cd_lastname = ''Bee'' \<rparr>
          [''Customer''] (Accepted (Some new_customer)),
        TicketPosted sales_payload (Accepted (Some \<lparr> ticket_id = 1 \<rparr>))] \<and>
   email_text sales_email = Some ''hello'' \<and>
   email_html sales_email = Some ''<p>hello</p>'' \<and>
   art_body (article sales_payload) = ''hello'' \<and>
   art_content_type (article sales_payload) = ''text/html'' \<and>
   findMatchingRule sales_email [sales_rule, quote_rule] = Some sales_rule \<and>
   action_priority (action sales_rule) = Some ''high'' \<and>
   priority sales_payload = ''2 normal''"
proof -
  have m: "findMatchingRule sales_email [sales_rule, quote_rule] = Some sales_rule"
    by (simp add: sales_email_def sales_rule_def rule_matches_def string_defs)
  have e: "email_text sales_email = Some ''hello'' \<and> email_html sales_email = Some ''<p>hello</p>''"
    by (simp add: sales_email_def)
  have p: "art_body (article sales_payload) = ''hello'' \<and>
      art_content_type (article sales_payload) = ''text/html'' \<and>
      priority sales_payload = ''2 normal''"
    by (simp add: sales_payload_def)
  have r: "action_priority (action sales_rule) = Some ''high''"
    by (simp add: sales_rule_def)
  from createTicket_sales_accepted m e p r show ?thesis by simp
qed

section \<open>Failures of the ticket submission\<close>

text \<open>
  C5, in the form that holds of the code. When the ticket submission of the integration's
  \<open>createTicket\<close> fails, the call rethrows the error of the HTTP client, which
  carries the message of a network error or timeout, or the status and body of a response
  outside 2xx; it returns no success value. When the ticket submission of the worker's
  \<open>createZammadTicket\<close> fails, the call logs the failure and returns
  \<open>null\<close>.
\<close>

theorem createTicket_failure:
  "(TicketPosted td r \<in> set (drop (length log) (snd (createTicket this up email dc log))) \<longrightarrow>
      (\<forall>message. r = NoResponse message \<longrightarrow>
         fst (createTicket this up email dc log) = Inl (AxiosError message None)) \<and>
      (\<forall>status body. r = Rejected status body \<longrightarrow>
         fst (createTicket this up email dc log) =
           Inl (AxiosError ''Request failed with status code'' (Some (status, body))))) \<and>
   (TicketPosted wtd wr \<in> set (drop (length wlog) (snd (createZammadTicket wup wemail env wlog))) \<longrightarrow>
      (\<forall>message. wr = NoResponse message \<longrightarrow>
         fst (createZammadTicket wup wemail env wlog) = None) \<and>
      (\<forall>status body. wr = Rejected status body \<longrightarrow>
         fst (createZammadTicket wup wemail env wlog) = None))"
proof -
  have integration:
    "fst (createTicket this up email dc log) =
       (case axios_result r of
          Inl error \<Rightarrow> Inl error
        | Inr None \<Rightarrow> Inl (TypeError ''Cannot read properties of null (reading id)'')
        | Inr (Some data) \<Rightarrow> Inr (Some data))"
    if "TicketPosted td r \<in> set (drop (length log) (snd (createTicket this up email dc log)))"
    using createTicket_submission [OF that] by blast
  have worker:
    "fst (createZammadTicket wup wemail env wlog) = (case wr of Accepted data \<Rightarrow> data | other \<Rightarrow> None)"
    if "TicketPosted wtd wr \<in> set (drop (length wlog) (snd (createZammadTicket wup wemail env wlog)))"
    using createZammadTicket_submission [OF that] by blast
  show ?thesis
  proof (intro conjI impI allI)
    fix message
    assume "TicketPosted td r \<in> set (drop (length log) (snd (createTicket this up email dc log)))"
      and "r = NoResponse message"
    with integration show "fst (createTicket this up email dc log) = Inl (AxiosError message None)"
      by (simp add: axios_result_def)
  next
    fix status body
    assume "TicketPosted td r \<in> set (drop (length log) (snd (createTicket this up email dc log)))"
      and "r = Rejected status body"
    with integration show "fst (createTicket this up email dc log) =
           Inl (AxiosError ''Request failed with status code'' (Some (status, body)))"
      by (simp add: axios_result_def)
  next
    fix message
    assume "TicketPosted wtd wr \<in> set (drop (length wlog) (snd (createZammadTicket wup wemail env wlog)))"
      and "wr = NoResponse message"
    with worker show "fst (createZammadTicket wup wemail env wlog) = None" by simp
  next
    fix status body
    assume "TicketPosted wtd wr \<in> set (drop (length wlog) (snd (createZammadTicket wup wemail env wlog)))"
      and "wr = Rejected status body"
    with worker show "fst (createZammadTicket wup wemail env wlog) = None" by simp
  qed
qed

theorem createTicket_failure_witness:
  "TicketPosted sales_payload (Rejected 503 ''Service Unavailable'') \<in>
     set (drop (length ([] :: js_from event list))
       (snd (createTicket (ZammadIntegration live_config) unavailable_upstream sales_email
          sales_domain []))) \<and>
   fst (createTicket (ZammadIntegration live_config) unavailable_upstream sales_email sales_domain [])
     = Inl (AxiosError ''Request failed with status code'' (Some (503, ''Service Unavailable''))) \<and>
   TicketPosted delivery_payload (Rejected 503 ''Service Unavailable'') \<in>
     set (drop (length ([] :: string event list))
       (snd (createZammadTicket unavailable_upstream parsed_delivery live_config []))) \<and>
   fst (createZammadTicket unavailable_upstream parsed_delivery live_config []) = None \<and>
   TicketPosted sales_payload (NoResponse ''timeout of 10000ms exceeded'') \<in>
     set (drop (length ([] :: js_from event list))
       (snd (createTicket (ZammadIntegration live_config) silent_upstream sales_email
          sales_domain []))) \<and>
   fst (createTicket (ZammadIntegration live_config) silent_upstream sales_email sales_domain [])
     = Inl (AxiosError ''timeout of 10000ms exceeded'' None) \<and>
   TicketPosted delivery_payload (NoResponse ''timeout of 10000ms exceeded'') \<in>
     set (drop (length ([] :: string event list))
       (snd (createZammadTicket silent_upstream parsed_delivery live_config []))) \<and>
   fst (createZammadTicket silent_upstream parsed_delivery live_config []) = None"
proof -
  have a: "TicketPosted sales_payload (Rejected 503 ''Service Unavailable'') \<in>
     set (drop (length ([] :: js_from event list))
       (snd (createTicket (ZammadIntegration live_config) unavailable_upstream sales_email
          sales_domain [])))"
    by (simp add: createTicket_sales_unavailable)
  have b: "TicketPosted delivery_payload (Rejected 503 ''Service Unavailable'') \<in>
     set (drop (length ([] :: string event list))
       (snd (createZammadTicket unavailable_upstream parsed_delivery live_config [])))"
    by (simp add: createZammadTicket_delivery_unavailable)
  have c: "TicketPosted sales_payload (NoResponse ''timeout of 10000ms exceeded'') \<in>
     set (drop (length ([] :: js_from event list))
       (snd (createTicket (ZammadIntegration live_config) silent_upstream sales_email
          sales_domain [])))"
    by (simp add: createTicket_sales_silent)
  have d: "TicketPosted delivery_payload (NoResponse ''timeout of 10000ms exceeded'') \<in>
     set (drop (length ([] :: string event list))
       (snd (createZammadTicket silent_upstream parsed_delivery live_config [])))"
    by (simp add: createZammadTicket_delivery_silent)
  from createTicket_failure
    [of sales_payload "Rejected 503 ''Service Unavailable''" "[]" "ZammadIntegration live_config"
        unavailable_upstream sales_email sales_domain
        delivery_payload "Rejected 503 ''Service Unavailable''" "[]" unavailable_upstream
        parsed_delivery live_config]
    a b
  have rejected: "fst (createTicket (ZammadIntegration live_config) unavailable_upstream sales_email sales_domain [])
     = Inl (AxiosError ''Request failed with status code'' (Some (503, ''Service Unavailable''))) \<and>
     fst (createZammadTicket unavailable_upstream parsed_delivery live_config []) = None"
    by simp
  from createTicket_failure
    [of sales_payload "NoResponse ''timeout of 10000ms exceeded''" "[]" "ZammadIntegration live_config"
        silent_upstream sales_email sales_domain
        delivery_payload "NoResponse ''timeout of 10000ms exceeded''" "[]" silent_upstream
        parsed_delivery live_config]
    c d
  have silent: "fst (createTicket (ZammadIntegration live_config) silent_upstream sales_email sales_domain [])
     = Inl (AxiosError ''timeout of 10000ms exceeded'' None) \<and>
     fst (createZammadTicket silent_upstream parsed_delivery live_config []) = None"
    by simp
  from a b c d rejected silent show ?thesis by (intro conjI) simp_all
qed

text \<open>The worker answers a submission rejected with 503 by returning \<open>null\<close>.\<close>

theorem createZammadTicket_swallows_failure:
  "createZammadTicket unavailable_upstream parsed_delivery live_config [] =
     (None,
      [Searched ''a@b.com'' (Accepted (Some [])),
       UserPosted \<lparr> cd_email = ''a@b.com'', cd_firstname = ''a'', cd_lastname = [] \<rparr>
         [''Customer''] (Accepted (Some new_customer)),
       TicketPosted delivery_payload (Rejected 503 ''Service Unavailable'')])"
  by (rule createZammadTicket_delivery_unavailable)

text \<open>
  C6, in the form that holds of the code. No request is repeated: whatever the ticketing
  system answers (a 5xx or a 4xx status, no response at all, or success), one call of
  \<open>createTicket\<close> or of \<open>createZammadTicket\<close> issues at most one
  search, at most one customer creation and at most one ticket submission.
\<close>

theorem no_request_is_retried:
  "length (filter is_search (drop (length log) (snd (createTicket this up email dc log)))) \<le> 1 \<and>
   length (filter is_user_post (drop (length log) (snd (createTicket this up email dc log)))) \<le> 1 \<and>
   length (filter is_ticket_post (drop (length log) (snd (createTicket this up email dc log)))) \<le> 1 \<and>
   length (filter is_search
     (drop (length wlog) (snd (createZammadTicket wup wemail env wlog)))) \<le> 1 \<and>
   length (filter is_user_post
     (drop (length wlog) (snd (createZammadTicket wup wemail env wlog)))) \<le> 1 \<and>
   length (filter is_ticket_post
     (drop (length wlog) (snd (createZammadTicket wup wemail env wlog)))) \<le> 1"
proof -
  obtain evs where evs: "snd (createTicket this up email dc log) = log @ evs"
    "length (filter is_search evs) \<le> 1" "length (filter is_user_post evs) \<le> 1"
    "filter is_ticket_post evs = [] \<or> (\<exists>td r. filter is_ticket_post evs = [TicketPosted td r])"
    using createTicket_log [of this up email dc log] by blast
  obtain wevs where wevs: "snd (createZammadTicket wup wemail env wlog) = wlog @ wevs"
    "length (filter is_search wevs) \<le> 1" "length (filter is_user_post wevs) \<le> 1"
    "filter is_ticket_post wevs = [] \<or> (\<exists>td r. filter is_ticket_post wevs = [TicketPosted td r])"
    using createZammadTicket_log [of wup wemail env wlog] by blast
  from evs(4) have t: "length (filter is_ticket_post evs) \<le> 1" by auto
  from wevs(4) have wt: "length (filter is_ticket_post wevs) \<le> 1" by auto
  from evs(1-3) wevs(1-3) t wt show ?thesis by simp
qed

theorem no_request_is_retried_witness:
  "length (filter is_ticket_post (drop (length ([] :: js_from event list))
     (snd (createTicket (ZammadIntegration live_config) unavailable_upstream sales_email
        sales_domain [])))) = 1 \<and>
   length (filter is_ticket_post (drop (length ([] :: string event list))
     (snd (createZammadTicket unavailable_upstream parsed_delivery live_config [])))) = 1"
  using no_request_is_retried
    [of "[]" "ZammadIntegration live_config" unavailable_upstream sales_email sales_domain
        "[]" unavailable_upstream parsed_delivery live_config]
  by (simp add: createTicket_sales_unavailable createZammadTicket_delivery_unavailable)

text \<open>A submission rejected with 503 is issued once, and the failure is the result.\<close>

theorem unavailable_submission_not_retried:
  "fst (createTicket (ZammadIntegration live_config) unavailable_upstream sales_email sales_domain [])
     = Inl (AxiosError ''Request failed with status code'' (Some (503, ''Service Unavailable''))) \<and>
   filter is_ticket_post
     (snd (createTicket (ZammadIntegration live_config) unavailable_upstream sales_email
        sales_domain []))
     = [TicketPosted sales_payload (Rejected 503 ''Service Unavailable'')] \<and>
   filter is_ticket_post
     (snd (createZammadTicket unavailable_upstream parsed_delivery live_config []))
     = [TicketPosted delivery_payload (Rejected 503 ''Service Unavailable'')]"
  by (simp add: createTicket_sales_unavailable createZammadTicket_delivery_unavailable)

section \<open>Properties of the worker's entry point\<close>

lemma tickets_created_append:
  "tickets_created (log @ evs) = tickets_created log + tickets_created evs"
  by (simp add: tickets_created_def)

lemma ticket_created_is_post: "ticket_created ev \<Longrightarrow> is_ticket_post ev"
  by (cases ev rule: ticket_created.cases) simp_all

lemma tickets_created_le_posts:
  "tickets_created evs \<le> length (filter is_ticket_post evs)"
proof -
  have "filter ticket_created evs = filter ticket_created (filter is_ticket_post evs)"
    by (auto simp: filter_filter intro!: filter_cong dest: ticket_created_is_post)
  then have "tickets_created evs = length (filter ticket_created (filter is_ticket_post evs))"
    by (simp add: tickets_created_def)
  also have "\<dots> \<le> length (filter is_ticket_post evs)"
    by (rule length_filter_le)
  finally show ?thesis .
qed

lemma tickets_created_no_posts:
  "filter is_ticket_post evs = [] \<Longrightarrow> tickets_created evs = 0"
  using tickets_created_le_posts [of evs] by simp

lemma forwards_create_no_ticket:
  "\<forall>ev \<in> set fw. is_forward ev \<Longrightarrow> tickets_created fw = 0"
proof -
  assume a: "\<forall>ev \<in> set fw. is_forward ev"
  have "filter ticket_created fw = []"
  proof (rule filter_False, rule ballI)
    fix ev assume "ev \<in> set fw"
    with a have "is_forward ev" by blast
    then show "\<not> ticket_created ev" by (cases ev) simp_all
  qed
  then show ?thesis by (simp add: tickets_created_def)
qed

lemma worker_findOrCreateCustomer_forward_irrelevant:
  "worker_findOrCreateCustomer (up\<lparr>forward := f\<rparr>) u t cd log =
   worker_findOrCreateCustomer up u t cd log"
  by (simp add: worker_findOrCreateCustomer_cases Let_def
      split: response.splits option.splits list.splits)

lemma createZammadTicket_forward_irrelevant:
  "createZammadTicket (up\<lparr>forward := f\<rparr>) email env log = createZammadTicket up email env log"
  by (simp add: createZammadTicket_cases worker_findOrCreateCustomer_forward_irrelevant Let_def
      split: sum.splits option.splits)

lemma email_catch_cases:
  "email_catch up env log =
     (if truthy (FORWARD_TO env) then
        (let dest = or_else (FORWARD_TO env) []; r = forward up log dest
         in (case r of None \<Rightarrow> Inr () | Some error \<Rightarrow> Inl error, log @ [Forwarded dest r]))
      else (Inr (), log))"
  by (simp add: email_catch_def message_forward_def Let_def split: option.splits)

lemma email_handler_cases:
  "email_handler up message env log =
     (let log1 = (case parseEmail message of
                    Inl error \<Rightarrow> log
                  | Inr email \<Rightarrow> snd (createZammadTicket up email env log));
          dest = or_else (FORWARD_TO env) []
      in if \<not> truthy (FORWARD_TO env) then (Inr (), log1)
         else case parseEmail message of
                Inl error \<Rightarrow> email_catch up env log1
              | Inr email \<Rightarrow>
                  (case forward up log1 dest of
                     None \<Rightarrow> (Inr (), log1 @ [Forwarded dest None])
                   | Some error \<Rightarrow> email_catch up env (log1 @ [Forwarded dest (Some error)])))"
  by (simp add: email_handler_def message_forward_def email_catch_cases Let_def
      split: sum.splits option.splits prod.splits)

lemma email_handler_log:
  "\<exists>fw. snd (email_handler up message env log) =
          (case parseEmail message of
             Inl error \<Rightarrow> log
           | Inr email \<Rightarrow> snd (createZammadTicket up email env log)) @ fw \<and>
        (\<forall>ev \<in> set fw. \<exists>r. ev = Forwarded (or_else (FORWARD_TO env) []) r) \<and>
        (truthy (FORWARD_TO env) \<longleftrightarrow> fw \<noteq> []) \<and>
        (fst (email_handler up message env log) = Inr () \<longleftrightarrow>
           fw = [] \<or> Forwarded (or_else (FORWARD_TO env) []) None \<in> set fw)"
  by (cases "parseEmail message")
     (auto simp: email_handler_cases email_catch_cases Let_def split: option.splits)

lemma parseEmail_delivery: "parseEmail delivery = Inr parsed_delivery"
  by (simp add: parseEmail_def delivery_def parsed_delivery_def headers_get_def string_defs)

lemma parseEmail_broken_delivery:
  "parseEmail broken_delivery = Inl (TypeError ''message.text is not a function'')"
  by (simp add: parseEmail_def broken_delivery_def delivery_def)

lemma createZammadTicket_delivery_unforwarding:
  "createZammadTicket unforwarding_upstream parsed_delivery live_config [] =
     (Some \<lparr> ticket_id = 1 \<rparr>,
      [Searched ''a@b.com'' (Accepted (Some [])),
       UserPosted \<lparr> cd_email = ''a@b.com'', cd_firstname = ''a'', cd_lastname = [] \<rparr>
         [''Customer''] (Accepted (Some new_customer)),
       TicketPosted delivery_payload (Accepted (Some \<lparr> ticket_id = 1 \<rparr>))])"
  by (simp add: createZammadTicket_cases worker_findOrCreateCustomer_cases
      delivery_ticketData [unfolded parsed_delivery_def] delivery_customer parsed_delivery_def
      live_config_def unforwarding_upstream_def tickets_created_def truthy_def or_else_def Let_def)

lemma email_handler_delivery_unforwarding:
  "email_handler unforwarding_upstream delivery live_config [] =
     (Inl (Error ''forwarding failed''),
      [Searched ''a@b.com'' (Accepted (Some [])),
       UserPosted \<lparr> cd_email = ''a@b.com'', cd_firstname = ''a'', cd_lastname = [] \<rparr>
         [''Customer''] (Accepted (Some new_customer)),
       TicketPosted delivery_payload (Accepted (Some \<lparr> ticket_id = 1 \<rparr>)),
       Forwarded ''me@home.example'' (Some (Error ''forwarding failed'')),
       Forwarded ''me@home.example'' (Some (Error ''forwarding failed''))])"
  by (simp add: email_handler_cases email_catch_cases parseEmail_delivery
        createZammadTicket_delivery_unforwarding Let_def)
     (simp add: email_catch_cases Let_def live_config_def unforwarding_upstream_def truthy_def or_else_def)

lemma email_handler_broken_delivery:
  "email_handler accepting_upstream broken_delivery live_config [] =
     (Inr (), [Forwarded ''me@home.example'' None])"
  by (simp add: email_handler_cases email_catch_cases parseEmail_broken_delivery Let_def)
     (simp add: email_catch_cases Let_def live_config_def accepting_upstream_def truthy_def or_else_def)

lemma email_handler_delivery_accepted:
  "email_handler accepting_upstream delivery live_config log =
     (Inr (),
      log @
      [Searched ''a@b.com'' (Accepted (Some [])),
       UserPosted \<lparr> cd_email = ''a@b.com'', cd_firstname = ''a'', cd_lastname = [] \<rparr>
         [''Customer''] (Accepted (Some new_customer)),
       TicketPosted delivery_payload (Accepted (Some \<lparr> ticket_id = Suc (tickets_created log) \<rparr>)),
       Forwarded ''me@home.example'' None])"
  by (simp add: email_handler_cases email_catch_cases parseEmail_delivery
        createZammadTicket_delivery_accepted Let_def)
     (simp add: email_catch_cases Let_def live_config_def accepting_upstream_def truthy_def or_else_def)

section \<open>Forwarding\<close>

lemma only_forwards:
  "\<forall>ev \<in> set fw. \<exists>r. ev = Forwarded dest r \<Longrightarrow> filter (\<lambda>ev. \<not> is_forward ev) fw = []"
  by (induction fw) auto

lemma no_forwards:
  "filter is_forward evs = [] \<Longrightarrow> filter (\<lambda>ev. \<not> is_forward ev) evs = evs"
  by (induction evs) (auto split: if_splits)

lemma not_in_when_filtered:
  "filter is_forward evs = [] \<Longrightarrow> Forwarded dest r \<notin> set evs"
  by (induction evs) (auto split: if_splits)

lemma email_handler_events:
  "\<exists>evs fw. snd (email_handler up message env log) = log @ evs @ fw \<and>
      evs = (case parseEmail message of
          Inl error \<Rightarrow> []
        | Inr email \<Rightarrow> drop (length log) (snd (createZammadTicket up email env log))) \<and>
      filter is_forward evs = [] \<and>
      (\<forall>ev \<in> set fw. \<exists>r. ev = Forwarded (or_else (FORWARD_TO env) []) r) \<and>
      (truthy (FORWARD_TO env) \<longleftrightarrow> fw \<noteq> []) \<and>
      (fst (email_handler up message env log) = Inr () \<longleftrightarrow>
         fw = [] \<or> Forwarded (or_else (FORWARD_TO env) []) None \<in> set fw)"
proof -
  obtain fw where fw: "snd (email_handler up message env log) =
          (case parseEmail message of
             Inl error \<Rightarrow> log
           | Inr email \<Rightarrow> snd (createZammadTicket up email env log)) @ fw"
      and rest: "(\<forall>ev \<in> set fw. \<exists>r. ev = Forwarded (or_else (FORWARD_TO env) []) r) \<and>
        (truthy (FORWARD_TO env) \<longleftrightarrow> fw \<noteq> []) \<and>
        (fst (email_handler up message env log) = Inr () \<longleftrightarrow>
           fw = [] \<or> Forwarded (or_else (FORWARD_TO env) []) None \<in> set fw)"
    using email_handler_log [of up message env log] by blast
  from rest have d: "\<forall>ev \<in> set fw. \<exists>r. ev = Forwarded (or_else (FORWARD_TO env) []) r"
    and e: "truthy (FORWARD_TO env) \<longleftrightarrow> fw \<noteq> []"
    and f: "fst (email_handler up message env log) = Inr () \<longleftrightarrow>
           fw = [] \<or> Forwarded (or_else (FORWARD_TO env) []) None \<in> set fw"
    by (rule conjunct1, rule conjunct2 [THEN conjunct1], rule conjunct2 [THEN conjunct2])
  show ?thesis
  proof (cases "parseEmail message")
    case (Inl e)
    with fw have a: "snd (email_handler up message env log) = log @ [] @ fw" by simp
    from Inl have b: "[] = (case parseEmail message of
          Inl error \<Rightarrow> []
        | Inr email \<Rightarrow> drop (length log) (snd (createZammadTicket up email env log)))"
      by simp
    have nf: "filter is_forward ([] :: string event list) = []" by simp
    show ?thesis
      by (rule exI [of _ "[]"], rule exI [of _ fw]) (intro conjI a b nf d e f)
  next
    case (Inr email)
    obtain evs where evs: "snd (createZammadTicket up email env log) = log @ evs"
      and nf: "filter is_forward evs = []"
      using createZammadTicket_log [of up email env log] by blast
    from fw Inr evs have a: "snd (email_handler up message env log) = log @ evs @ fw" by simp
    from Inr evs have b: "evs = (case parseEmail message of
          Inl error \<Rightarrow> []
        | Inr email \<Rightarrow> drop (length log) (snd (createZammadTicket up email env log)))"
      by simp
    show ?thesis
      by (rule exI [of _ evs], rule exI [of _ fw]) (intro conjI a b nf d e f)
  qed
qed

text \<open>
  C7. When a forwarding destination is configured, the entry point calls
  \<open>message.forward\<close> with it for every message and whatever the ticketing system
  answers: when the ticket was created, when its creation failed, and when parsing
  threw. The handler ends without error exactly when a forward succeeded. The requests
  sent to the ticketing system are those of \<open>createZammadTicket\<close> whatever the forwarding
  sink does, so a failing forward takes no ticket request away.
\<close>

theorem forwarded_whatever_the_outcome:
  "truthy (FORWARD_TO env) \<Longrightarrow>
     (\<exists>r. Forwarded (or_else (FORWARD_TO env) []) r \<in>
            set (drop (length log) (snd (email_handler up message env log)))) \<and>
     (fst (email_handler up message env log) = Inr () \<longleftrightarrow>
        Forwarded (or_else (FORWARD_TO env) []) None \<in>
          set (drop (length log) (snd (email_handler up message env log)))) \<and>
     filter (\<lambda>ev. \<not> is_forward ev)
       (drop (length log) (snd (email_handler (up\<lparr>forward := f\<rparr>) message env log))) =
       (case parseEmail message of
          Inl error \<Rightarrow> []
        | Inr email \<Rightarrow> drop (length log) (snd (createZammadTicket up email env log)))"
proof -
  assume configured: "truthy (FORWARD_TO env)"
  define dest where "dest = or_else (FORWARD_TO env) []"
  obtain evs fw where run: "snd (email_handler up message env log) = log @ evs @ fw"
    and nf: "filter is_forward evs = []"
    and fws: "\<forall>ev \<in> set fw. \<exists>r. ev = Forwarded dest r"
    and some: "truthy (FORWARD_TO env) \<longleftrightarrow> fw \<noteq> []"
    and res: "fst (email_handler up message env log) = Inr () \<longleftrightarrow>
         fw = [] \<or> Forwarded dest None \<in> set fw"
    using email_handler_events [of up message env log] unfolding dest_def by blast
  from configured some obtain ev where "ev \<in> set fw" by (cases fw) auto
  then have mem: "ev \<in> set fw" .
  from fws mem have "\<exists>r. ev = Forwarded dest r" by (rule bspec)
  then obtain r where "ev = Forwarded dest r" ..
  with mem have r: "Forwarded dest r \<in> set fw" by simp
  from run have new: "drop (length log) (snd (email_handler up message env log)) = evs @ fw"
    by simp
  from r have first: "\<exists>r. Forwarded dest r \<in>
      set (drop (length log) (snd (email_handler up message env log)))"
    unfolding new by auto
  from configured some have "fw \<noteq> []" by simp
  with res not_in_when_filtered [OF nf, of dest None]
  have second: "fst (email_handler up message env log) = Inr () \<longleftrightarrow>
      Forwarded dest None \<in> set (drop (length log) (snd (email_handler up message env log)))"
    unfolding new by simp
  obtain evs' fw' where run': "snd (email_handler (up\<lparr>forward := f\<rparr>) message env log) = log @ evs' @ fw'"
    and evs': "evs' = (case parseEmail message of
          Inl error \<Rightarrow> []
        | Inr email \<Rightarrow> drop (length log) (snd (createZammadTicket (up\<lparr>forward := f\<rparr>) email env log)))"
    and nf': "filter is_forward evs' = []"
    and fws': "\<forall>ev \<in> set fw'. \<exists>r. ev = Forwarded dest r"
    using email_handler_events [of "up\<lparr>forward := f\<rparr>" message env log] unfolding dest_def by blast
  from run' have "drop (length log) (snd (email_handler (up\<lparr>forward := f\<rparr>) message env log)) = evs' @ fw'"
    by simp
  then have "filter (\<lambda>ev. \<not> is_forward ev)
       (drop (length log) (snd (email_handler (up\<lparr>forward := f\<rparr>) message env log))) = evs'"
    by (simp add: no_forwards [OF nf'] only_forwards [OF fws'])
  also have "evs' = (case parseEmail message of
          Inl error \<Rightarrow> []
        | Inr email \<Rightarrow> drop (length log) (snd (createZammadTicket up email env log)))"
    unfolding evs'
    by (cases "parseEmail message") (simp_all add: createZammadTicket_forward_irrelevant)
  finally have third: "filter (\<lambda>ev. \<not> is_forward ev)
       (drop (length log) (snd (email_handler (up\<lparr>forward := f\<rparr>) message env log))) =
       (case parseEmail message of
          Inl error \<Rightarrow> []
        | Inr email \<Rightarrow> drop (length log) (snd (createZammadTicket up email env log)))" .
  from first second third show ?thesis unfolding dest_def by (intro conjI)
qed

text \<open>
  A delivery whose parsing throws is forwarded; a delivery whose forwarding fails twice
  has had its ticket requests sent all the same.
\<close>

theorem forwarded_whatever_the_outcome_witness:
  "truthy (FORWARD_TO live_config) \<and>
   email_handler accepting_upstream broken_delivery live_config [] =
     (Inr (), [Forwarded ''me@home.example'' None]) \<and>
   Forwarded ''me@home.example'' None \<in>
     set (drop (length ([] :: string event list))
       (snd (email_handler accepting_upstream broken_delivery live_config []))) \<and>
   filter (\<lambda>ev. \<not> is_forward ev)
     (drop (length ([] :: string event list))
       (snd (email_handler unforwarding_upstream delivery live_config []))) =
     [Searched ''a@b.com'' (Accepted (Some [])),
      UserPosted \<lparr> cd_email = ''a@b.com'', cd_firstname = ''a'', cd_lastname = [] \<rparr>
        [''Customer''] (Accepted (Some new_customer)),
      TicketPosted delivery_payload (Accepted (Some \<lparr> ticket_id = 1 \<rparr>))]"
proof -
  have c: "truthy (FORWARD_TO live_config)"
    by (simp add: live_config_def truthy_def)
  have u: "unforwarding_upstream\<lparr>forward := forward unforwarding_upstream\<rparr> =
      (unforwarding_upstream :: string upstream)"
    by simp
  from forwarded_whatever_the_outcome
         [OF c, of "[]" accepting_upstream broken_delivery "forward accepting_upstream"]
  have a: "Forwarded ''me@home.example'' None \<in>
     set (drop (length ([] :: string event list))
       (snd (email_handler accepting_upstream broken_delivery live_config [])))"
    by (simp add: email_handler_broken_delivery)
  from forwarded_whatever_the_outcome
         [OF c, of "[]" unforwarding_upstream delivery "forward unforwarding_upstream"]
  have b: "filter (\<lambda>ev. \<not> is_forward ev)
     (drop (length ([] :: string event list))
       (snd (email_handler unforwarding_upstream delivery live_config []))) =
     [Searched ''a@b.com'' (Accepted (Some [])),
      UserPosted \<lparr> cd_email = ''a@b.com'', cd_firstname = ''a'', cd_lastname = [] \<rparr>
        [''Customer''] (Accepted (Some new_customer)),
      TicketPosted delivery_payload (Accepted (Some \<lparr> ticket_id = 1 \<rparr>))]"
    unfolding u
    by (simp add: parseEmail_delivery createZammadTicket_delivery_unforwarding)
  from a b c email_handler_broken_delivery show ?thesis by (intro conjI)
qed

section \<open>Two deliveries of one message\<close>

lemma email_handler_tickets:
  "tickets_created (snd (email_handler up message env log)) =
     (case parseEmail message of
        Inl error \<Rightarrow> tickets_created log
      | Inr email \<Rightarrow> tickets_created (snd (createZammadTicket up email env log)))"
proof -
  obtain fw where fw: "snd (email_handler up message env log) =
          (case parseEmail message of
             Inl error \<Rightarrow> log
           | Inr email \<Rightarrow> snd (createZammadTicket up email env log)) @ fw"
    and fws: "\<forall>ev \<in> set fw. \<exists>r. ev = Forwarded (or_else (FORWARD_TO env) []) r"
    using email_handler_log [of up message env log] by blast
  have "\<forall>ev \<in> set fw. is_forward ev"
  proof
    fix ev assume "ev \<in> set fw"
    with fws have "\<exists>r. ev = Forwarded (or_else (FORWARD_TO env) []) r" by (rule bspec)
    then obtain r where "ev = Forwarded (or_else (FORWARD_TO env) []) r" ..
    then show "is_forward ev" by simp
  qed
  then have "tickets_created fw = 0" by (rule forwards_create_no_ticket)
  with fw show ?thesis
    by (cases "parseEmail message") (simp_all add: tickets_created_append)
qed

lemma createZammadTicket_at_most_one:
  "tickets_created (snd (createZammadTicket up email env log)) \<le> tickets_created log + 1"
proof -
  obtain evs where evs: "snd (createZammadTicket up email env log) = log @ evs"
    and posts: "filter is_ticket_post evs = [] \<or>
       (\<exists>td r. filter is_ticket_post evs = [TicketPosted td r])"
    using createZammadTicket_log [of up email env log] by blast
  from posts have "length (filter is_ticket_post evs) \<le> 1" by auto
  with tickets_created_le_posts [of evs] have "tickets_created evs \<le> 1" by simp
  with evs show ?thesis by (simp add: tickets_created_append)
qed

lemma worker_findOrCreateCustomer_accepted:
  assumes "accepts_every_request up"
  shows "\<exists>customer evs. worker_findOrCreateCustomer up u t cd log = (Inr (Some customer), log @ evs) \<and>
           tickets_created evs = 0"
proof -
  from assms obtain found where s: "users_search up log (cd_email cd) = Accepted found"
    unfolding accepts_every_request_def by metis
  define log1 where "log1 = log @ [Searched (cd_email cd) (Accepted found)]"
  from assms obtain customer where
    p: "users_post up log1 cd [''Customer''] = Accepted (Some customer)"
    unfolding accepts_every_request_def by metis
  show ?thesis
  proof (cases found)
    case None
    with s p have "worker_findOrCreateCustomer up u t cd log =
        (Inr (Some customer),
         log @ [Searched (cd_email cd) (Accepted found),
                UserPosted cd [''Customer''] (Accepted (Some customer))])"
      by (simp add: worker_findOrCreateCustomer_cases log1_def)
    moreover have "tickets_created [Searched (cd_email cd) (Accepted found),
                UserPosted cd [''Customer''] (Accepted (Some customer))] = 0"
      by (simp add: tickets_created_def)
    ultimately show ?thesis by blast
  next
    case (Some cs)
    show ?thesis
    proof (cases cs)
      case Nil
      with Some s p have "worker_findOrCreateCustomer up u t cd log =
        (Inr (Some customer),
         log @ [Searched (cd_email cd) (Accepted found),
                UserPosted cd [''Customer''] (Accepted (Some customer))])"
        by (simp add: worker_findOrCreateCustomer_cases log1_def)
      moreover have "tickets_created [Searched (cd_email cd) (Accepted found),
                UserPosted cd [''Customer''] (Accepted (Some customer))] = 0"
        by (simp add: tickets_created_def)
      ultimately show ?thesis by blast
    next
      case (Cons c cs')
      with Some s have "worker_findOrCreateCustomer up u t cd log =
        (Inr (Some c), log @ [Searched (cd_email cd) (Accepted found)])"
        by (simp add: worker_findOrCreateCustomer_cases)
      moreover have "tickets_created [Searched (cd_email cd) (Accepted found)] = 0"
        by (simp add: tickets_created_def)
      ultimately show ?thesis by blast
    qed
  qed
qed

lemma createZammadTicket_accepted:
  assumes "truthy (ZAMMAD_API_TOKEN env)" and "accepts_every_request up"
  shows "tickets_created (snd (createZammadTicket up email env log)) = tickets_created log + 1"
proof -
  define name where
    "name = or_else (extractName (p_from email)) (hd (split_on CHR ''@'' (p_from email)))"
  define cd where "cd = \<lparr> cd_email = p_from email,
                        cd_firstname = firstname_of name,
                        cd_lastname = lastname_of name \<rparr>"
  define u where "u = or_else (ZAMMAD_URL env) ''https://help.vln.gg''"
  define t where "t = or_else (ZAMMAD_API_TOKEN env) []"
  obtain customer evs where
    found: "worker_findOrCreateCustomer up u t cd log = (Inr (Some customer), log @ evs)"
    and none: "tickets_created evs = 0"
    using worker_findOrCreateCustomer_accepted [OF assms(2), of u t cd log] by blast
  from assms(2) obtain data where
    r: "tickets_post up (log @ evs) (worker_ticketData email customer) = Accepted data"
    unfolding accepts_every_request_def by metis
  from assms(1) found r
  have "snd (createZammadTicket up email env log) =
          (log @ evs) @ [TicketPosted (worker_ticketData email customer) (Accepted data)]"
    by (simp add: createZammadTicket_cases name_def [symmetric] cd_def [symmetric]
        u_def [symmetric] t_def [symmetric] Let_def)
  then have "tickets_created (snd (createZammadTicket up email env log)) =
      tickets_created log + tickets_created evs +
      tickets_created [TicketPosted (worker_ticketData email customer) (Accepted data)]"
    by (simp only: tickets_created_append)
  with none show ?thesis by (simp add: tickets_created_def)
qed

text \<open>
  C1, in the form that holds of the code. The entry point keeps no record of the messages
  it has processed: each delivery is handled on its own and creates at most one ticket, so
  a message delivered twice creates at most two. It creates exactly two whenever the API
  token is configured, the message parses, and the ticketing system accepts every request.
\<close>

theorem each_delivery_creates_its_own_ticket:
  "tickets_created (snd (email_handler up message env log)) \<le> tickets_created log + 1 \<and>
   tickets_created
     (snd (email_handler up message env (snd (email_handler up message env log))))
     \<le> tickets_created log + 2 \<and>
   (truthy (ZAMMAD_API_TOKEN env) \<and> (\<exists>email. parseEmail message = Inr email) \<and>
    accepts_every_request up \<longrightarrow>
      tickets_created
        (snd (email_handler up message env (snd (email_handler up message env log))))
        = tickets_created log + 2)"
proof -
  have one: "tickets_created (snd (email_handler up message env l)) \<le> tickets_created l + 1"
    for l
    using createZammadTicket_at_most_one [of up _ env l]
    by (cases "parseEmail message") (simp_all add: email_handler_tickets)
  from one [of log] one [of "snd (email_handler up message env log)"]
  have two: "tickets_created
     (snd (email_handler up message env (snd (email_handler up message env log))))
     \<le> tickets_created log + 2"
    by simp
  have exact: "tickets_created
        (snd (email_handler up message env (snd (email_handler up message env log))))
        = tickets_created log + 2"
    if "truthy (ZAMMAD_API_TOKEN env) \<and> (\<exists>email. parseEmail message = Inr email) \<and>
        accepts_every_request up"
  proof -
    from that obtain email where parsed: "parseEmail message = Inr email" by blast
    from that have token: "truthy (ZAMMAD_API_TOKEN env)" and acc: "accepts_every_request up"
      by simp_all
    have "tickets_created (snd (email_handler up message env l)) = tickets_created l + 1" for l
      using createZammadTicket_accepted [OF token acc, of email l]
      by (simp add: email_handler_tickets parsed)
    then show ?thesis by simp
  qed
  from one [of log] two exact show ?thesis by blast
qed

lemma accepting_upstream_accepts: "accepts_every_request accepting_upstream"
  by (simp add: accepts_every_request_def accepting_upstream_def)

theorem each_delivery_creates_its_own_ticket_witness:
  "truthy (ZAMMAD_API_TOKEN live_config) \<and> parseEmail delivery = Inr parsed_delivery \<and>
   accepts_every_request (accepting_upstream :: string upstream) \<and>
   tickets_created
     (snd (email_handler accepting_upstream delivery live_config
        (snd (email_handler accepting_upstream delivery live_config [])))) = 2"
proof -
  have token: "truthy (ZAMMAD_API_TOKEN live_config)"
    by (simp add: live_config_def truthy_def)
  have none: "tickets_created ([] :: string event list) = 0"
    by (simp add: tickets_created_def)
  have acc: "accepts_every_request (accepting_upstream :: string upstream)"
    by (rule accepting_upstream_accepts)
  from each_delivery_creates_its_own_ticket [of accepting_upstream delivery live_config "[]"]
    token parseEmail_delivery acc
  show ?thesis by (simp add: none)
qed

text \<open>
  The example delivery carries a \<open>Message-ID\<close> header; delivered twice to a ticketing
  system that accepts every request, it creates two tickets.
\<close>

theorem duplicate_delivery_creates_two_tickets:
  "headers_get (msg_headers delivery) ''Message-ID'' = Some ''<1@b.com>'' \<and>
   tickets_created
     (snd (email_handler accepting_upstream delivery live_config
        (snd (email_handler accepting_upstream delivery live_config [])))) = 2"
  by (simp add: email_handler_delivery_accepted tickets_created_def)
     (simp add: delivery_def headers_get_def string_defs)

end
